theory Spec2Isabelle
  imports Main "HOL-Library.Word"
begin

section \<open>The contract: confidence derivation (contracts/ForgeryNetFHE.sol)\<close>

text \<open>
  \<^verbatim>\<open>
  function computeConfidence(uint32 aggregated) internal pure returns (uint32) {
      uint32 value = aggregated;
      if (value > 100) { return 100; }
      return value;
  }
  \<close>
  A \<open>uint32\<close> is a 32-bit word; the comparison is unsigned.
\<close>

type_synonym uint32 = "32 word"

definition computeConfidence :: "uint32 \<Rightarrow> uint32" where
  "computeConfidence aggregated =
     (let v = aggregated in if v > 100 then 100 else v)"

section \<open>The front-end: values of the JavaScript runtime (frontend/web/src/App.tsx)\<close>

text \<open>
  The front-end reads and writes JSON texts through a key-value contract. What
  \<^verbatim>\<open>JSON.parse\<close> returns is typed \<^verbatim>\<open>any\<close>; the code reads properties of
  it, iterates over it and spreads it without checking its shape, so the model keeps the
  parsed value as a JSON tree and spells out what each of these operations does on every
  shape. Strings are lists of characters and numbers are integers (the code only ever
  writes whole seconds); how the runtime prints a number and what it makes of a
  subtraction are not worked out here but taken from the environment. An object is the
  list of its own properties in property order, each name occurring once.
\<close>

datatype json =
    JNull
  | JBool bool
  | JNum int
  | JStr string
  | JArr "json list"
  | JObj "(string \<times> json) list"

text \<open>
  A value that was thrown, as a \<^verbatim>\<open>catch (e: any)\<close> sees it: an object whose
  \<^verbatim>\<open>message\<close> is a string, or one that has no \<^verbatim>\<open>message\<close> (\<open>None\<close>, the
  read gives \<^verbatim>\<open>undefined\<close>), as a wallet may reject with. The messages of the
  exceptions that the runtime itself throws (reading a property of \<^verbatim>\<open>null\<close>,
  iterating what is not iterable, calling what is not a function, parsing what is not
  JSON) differ between engines; the model gives each a representative text, and nothing
  proved below depends on these texts.
\<close>

datatype error = Error "string option"

fun message :: "error \<Rightarrow> string option" where
  "message (Error m) = m"

subsection \<open>Strings\<close>

text \<open>
  Decimal digits of a number, as a template literal prints \<^verbatim>\<open>Date.now()\<close> (a
  count of milliseconds, at most 8.64e15, which the runtime prints digit for digit) and as
  the indices of an array are named.
\<close>

fun showNat :: "nat \<Rightarrow> string" where
  "showNat n =
     (if n < 10 then [''0123456789'' ! n]
      else showNat (n div 10) @ [''0123456789'' ! (n mod 10)])"

declare showNat.simps [simp del]

text \<open>
  \<^verbatim>\<open>String.prototype.toLowerCase\<close> on the letters A to Z (account addresses are
  hexadecimal text); every other character is left as it is.
\<close>

definition lowerChar :: "char \<Rightarrow> char" where
  "lowerChar c =
     (case map_of (zip ''ABCDEFGHIJKLMNOPQRSTUVWXYZ'' ''abcdefghijklmnopqrstuvwxyz'') c of
        Some l \<Rightarrow> l
      | None \<Rightarrow> c)"

definition toLowerCase :: "string \<Rightarrow> string" where
  "toLowerCase s = map lowerChar s"

fun startsWith :: "string \<Rightarrow> string \<Rightarrow> bool" where
  "startsWith s [] = True"
| "startsWith [] (c # t) = False"
| "startsWith (d # s) (c # t) = (d = c \<and> startsWith s t)"

text \<open>\<^verbatim>\<open>s.includes(t)\<close>: \<open>t\<close> occurs in \<open>s\<close> as a contiguous substring.\<close>

fun includesStr :: "string \<Rightarrow> string \<Rightarrow> bool" where
  "includesStr [] t = (t = [])"
| "includesStr (c # s) t = (startsWith (c # s) t \<or> includesStr s t)"

fun joinComma :: "string list \<Rightarrow> string" where
  "joinComma [] = []"
| "joinComma [s] = s"
| "joinComma (s # t # ss) = s @ '','' @ joinComma (t # ss)"

subsection \<open>Property access, truthiness, iteration, spread\<close>

text \<open>
  \<^verbatim>\<open>artworkData.data\<close> and the four other reads of line 113 to 117. Reading a
  property of \<^verbatim>\<open>null\<close> throws a TypeError; an object yields its own property or
  \<^verbatim>\<open>undefined\<close> (\<open>None\<close>); a number, boolean, string or array has none of the
  five names the code reads (\<^verbatim>\<open>data\<close>, \<^verbatim>\<open>timestamp\<close>, \<^verbatim>\<open>owner\<close>,
  \<^verbatim>\<open>artworkName\<close>, \<^verbatim>\<open>status\<close>), so the read yields \<^verbatim>\<open>undefined\<close>.
\<close>

fun getProp :: "json \<Rightarrow> string \<Rightarrow> error + json option" where
  "getProp JNull p = Inl (Error (Some (''Cannot read properties of null (reading '' @ p @ '')'')))"
| "getProp (JObj fs) p = Inr (map_of fs p)"
| "getProp j p = Inr None"

text \<open>What \<^verbatim>\<open>v || d\<close> tests: \<^verbatim>\<open>undefined\<close>, \<^verbatim>\<open>null\<close>, \<^verbatim>\<open>false\<close>,
  \<^verbatim>\<open>0\<close> and the empty string are falsy.\<close>

fun truthy :: "json option \<Rightarrow> bool" where
  "truthy None = False"
| "truthy (Some JNull) = False"
| "truthy (Some (JBool b)) = b"
| "truthy (Some (JNum n)) = (n \<noteq> 0)"
| "truthy (Some (JStr s)) = (s \<noteq> [])"
| "truthy (Some j) = True"

text \<open>\<^verbatim>\<open>v || d\<close>\<close>

fun orElse :: "json option \<Rightarrow> json \<Rightarrow> json" where
  "orElse None d = d"
| "orElse (Some j) d = (if truthy (Some j) then j else d)"

text \<open>
  \<^verbatim>\<open>for (const key of keys)\<close>: an array yields its elements, a string its
  characters; any other value is not iterable and the loop statement throws.
\<close>

fun iterate :: "json \<Rightarrow> error + json list" where
  "iterate (JArr xs) = Inr xs"
| "iterate (JStr s) = Inr (map (\<lambda>c. JStr [c]) s)"
| "iterate j = Inl (Error (Some ''keys is not iterable''))"

text \<open>\<^verbatim>\<open>keys.push(artworkId)\<close>: only an array has \<^verbatim>\<open>push\<close>.\<close>

fun push :: "json \<Rightarrow> json \<Rightarrow> error + json" where
  "push (JArr xs) x = Inr (JArr (xs @ [x]))"
| "push j x = Inl (Error (Some ''keys.push is not a function''))"

text \<open>
  The own enumerable properties an object spread \<^verbatim>\<open>{...artworkData}\<close> copies: those
  of an object; the indexed elements of an array or characters of a string; none of
  \<^verbatim>\<open>null\<close>, a number or a boolean.
\<close>

fun ownEntries :: "json \<Rightarrow> (string \<times> json) list" where
  "ownEntries (JObj fs) = fs"
| "ownEntries (JArr xs) = zip (map showNat [0..<length xs]) xs"
| "ownEntries (JStr s) = zip (map showNat [0..<length s]) (map (\<lambda>c. JStr [c]) s)"
| "ownEntries j = []"

text \<open>Defining a property in an object literal: an existing name keeps its place and
  takes the new value, a new name goes last.\<close>

fun setProp :: "string \<Rightarrow> json \<Rightarrow> (string \<times> json) list \<Rightarrow> (string \<times> json) list" where
  "setProp p v [] = [(p, v)]"
| "setProp p v ((q, w) # fs) = (if q = p then (p, v) # fs else (q, w) # setProp p v fs)"

text \<open>
  What a sort reads of the number its comparator returns: whether it is below zero, above
  zero, or neither (zero, or \<^verbatim>\<open>NaN\<close>, which a sort takes for zero).
\<close>

datatype sign = Negative | Neither | Positive

section \<open>The ledger and the environment of the front-end\<close>

text \<open>
  The bytes held under a key are represented by what
  \<^verbatim>\<open>JSON.parse(ethers.toUtf8String(bytes))\<close> makes of them: \<open>Empty\<close> is the byte
  sequence of length 0, \<open>Unparsable\<close> stands for bytes on which decoding or parsing
  throws, \<open>Parsed j\<close> for bytes that parse to \<open>j\<close>. The bytes
  \<^verbatim>\<open>ethers.toUtf8Bytes(JSON.stringify(j))\<close> that the code writes are \<open>Parsed j\<close>.
\<close>

datatype blob = Empty | Unparsable | Parsed json

text \<open>The remote store, with the sequence of writes it has acknowledged, oldest first.\<close>

record ledger =
  store :: "string \<Rightarrow> blob"
  writes :: "(string \<times> blob) list"

text \<open>
  \<^verbatim>\<open>
  interface ArtworkRecord {
    id: string; encryptedData: string; timestamp: number;
    owner: string; artworkName: string;
    status: "pending" | "authentic" | "forgery";
  }
  \<close>
  The interface is not checked when a record is built from parsed JSON, so a field holds
  whatever the blob had under that name, or \<^verbatim>\<open>undefined\<close> (\<open>None\<close>).
\<close>

record ArtworkRecord =
  id' :: json
  encryptedData :: "json option"
  timestamp :: "json option"
  owner :: "json option"
  artworkName :: "json option"
  status :: json

record NewArtworkData =
  artworkName' :: string
  description :: string
  hyperspectralData :: string

text \<open>
  Everything an operation obtains from outside App.tsx while it runs: the contract module
  (\<^verbatim>\<open>./contract\<close>), the failures of remote calls, the clock, the random number
  generator, and four built-ins of the engine that are taken as given:
  \<^item> \<open>numberToString\<close>, the text a number is printed as (digits, or exponent form
    from 1e21 on);
  \<^item> \<open>minusSign x y\<close>, the sign of \<^verbatim>\<open>x - y\<close> for two values of any kind, or the
    exception the coercion of an operand to a number throws (as it does for an object
    with a \<^verbatim>\<open>toString\<close> property of its own, which is not callable);
  \<^item> \<open>arraySort\<close>, \<^verbatim>\<open>Array.prototype.sort\<close> on a list of records with a
    comparator: the language fixes the result only for a comparator that orders the
    elements consistently and leaves the order, and the calls made, to the engine
    otherwise; it throws what a call of the comparator throws;
  \<^item> \<open>btoaJson\<close>, \<^verbatim>\<open>btoa(JSON.stringify(newArtworkData))\<close>.

  A call that rejects is \<open>Inl\<close> or \<open>Some\<close> of the value thrown;
  \<open>getContractReadOnly = Inr False\<close> is the module handing back no contract. Within
  one operation a remote call on a given key has one outcome.
\<close>

record env =
  getContractReadOnly :: "error + bool"
  getContractWithSigner :: "error + bool"
  isAvailable :: "error + bool"
  getDataThrows :: "string \<Rightarrow> error option"
  setDataThrows :: "string \<Rightarrow> error option"
  numberToString :: "int \<Rightarrow> string"
  minusSign :: "json option \<Rightarrow> json option \<Rightarrow> error + sign"
  arraySort :: "(ArtworkRecord \<Rightarrow> ArtworkRecord \<Rightarrow> error + sign) \<Rightarrow>
                ArtworkRecord list \<Rightarrow> error + ArtworkRecord list"
  btoaJson :: "NewArtworkData \<Rightarrow> error + string"
  dateNowId :: nat
  randomSuffix :: string
  dateNowStamp :: nat

text \<open>
  The string a template literal \<^verbatim>\<open>`artwork_${key}`\<close> inserts for a value. A string
  is itself and a number is printed by the engine. An object is converted through its
  \<^verbatim>\<open>toString\<close>: that of the prototype gives \<^verbatim>\<open>[object Object]\<close>, but a
  property \<^verbatim>\<open>toString\<close> of its own, which in parsed JSON is never a function, makes
  the conversion throw a TypeError. An array is its elements joined by commas, each
  converted in the same way, with \<^verbatim>\<open>null\<close> printed as nothing, and throws if an
  element does.
\<close>

fun toStringJ :: "env \<Rightarrow> json \<Rightarrow> error + string"
  and toStringElements :: "env \<Rightarrow> json list \<Rightarrow> error + string list" where
  "toStringJ env JNull = Inr ''null''"
| "toStringJ env (JBool b) = Inr (if b then ''true'' else ''false'')"
| "toStringJ env (JNum n) = Inr (numberToString env n)"
| "toStringJ env (JStr s) = Inr s"
| "toStringJ env (JArr xs) =
     (case toStringElements env xs of
        Inl e \<Rightarrow> Inl e
      | Inr ss \<Rightarrow> Inr (joinComma ss))"
| "toStringJ env (JObj fs) =
     (if ''toString'' \<in> fst ` set fs
      then Inl (Error (Some ''Cannot convert object to primitive value''))
      else Inr ''[object Object]'')"
| "toStringElements env [] = Inr []"
| "toStringElements env (x # xs) =
     (case (if x = JNull then Inr [] else toStringJ env x) of
        Inl e \<Rightarrow> Inl e
      | Inr s \<Rightarrow>
          (case toStringElements env xs of
             Inl e \<Rightarrow> Inl e
           | Inr ss \<Rightarrow> Inr (s # ss)))"

text \<open>
  Modelled from the spec: the contract's \<^verbatim>\<open>getData\<close> is not part of the sources
  (the Solidity contract that is has no key-value interface). \<^verbatim>\<open>get(key)\<close> returns
  the bytes last set under the key, the empty byte sequence if there are none, and never
  fails for a key that is not there; it may still be rejected, as any remote call.
\<close>

definition getData :: "env \<Rightarrow> ledger \<Rightarrow> string \<Rightarrow> error + blob" where
  "getData env led key =
     (case getDataThrows env key of
        Some e \<Rightarrow> Inl e
      | None \<Rightarrow> Inr (store led key))"

text \<open>
  Modelled from the spec: the contract's \<^verbatim>\<open>setData\<close> is not part of the sources.
  \<^verbatim>\<open>set(key, value)\<close> stores the value under the key and acknowledges, or fails,
  among other reasons because the user declined, and then stores nothing.
\<close>

definition setData :: "env \<Rightarrow> ledger \<Rightarrow> string \<Rightarrow> blob \<Rightarrow> error + ledger" where
  "setData env led key v =
     (case setDataThrows env key of
        Some e \<Rightarrow> Inl e
      | None \<Rightarrow> Inr (led\<lparr>store := (store led)(key := v), writes := writes led @ [(key, v)]\<rparr>))"

section \<open>The state of the application\<close>

record TransactionStatus =
  visible :: bool
  status' :: string
  message' :: string

text \<open>
  The \<^verbatim>\<open>useState\<close> cells the operations read or write; \<open>provider\<close> is whether
  a wallet provider is set. The timers that hide the notification two or three seconds
  after an operation are not part of the model: it describes the state when the
  operation's promise settles.
\<close>

record AppState =
  account :: string
  provider :: bool
  artworks :: "ArtworkRecord list"
  isRefreshing :: bool
  loading :: bool
  uploading :: bool
  transactionStatus :: TransactionStatus
  newArtworkData :: NewArtworkData

section \<open>loadArtworks\<close>

text \<open>
  \<^verbatim>\<open>
  let keys: string[] = [];
  if (keysBytes.length > 0) {
    try { keys = JSON.parse(ethers.toUtf8String(keysBytes)); }
    catch (e) { console.error("Error parsing artwork keys:", e); }
  }
  \<close>
\<close>

fun parseKeys :: "blob \<Rightarrow> json" where
  "parseKeys Empty = JArr []"
| "parseKeys Unparsable = JArr []"
| "parseKeys (Parsed j) = j"

text \<open>
  The object literal pushed onto the list (line 111 to 118). The properties are read in
  the order written, so a read that throws does so at \<^verbatim>\<open>artworkData.data\<close>.
\<close>

definition makeRecord :: "json \<Rightarrow> json \<Rightarrow> error + ArtworkRecord" where
  "makeRecord key artworkData =
     (case getProp artworkData ''data'' of Inl e \<Rightarrow> Inl e | Inr d \<Rightarrow>
     (case getProp artworkData ''timestamp'' of Inl e \<Rightarrow> Inl e | Inr t \<Rightarrow>
     (case getProp artworkData ''owner'' of Inl e \<Rightarrow> Inl e | Inr ow \<Rightarrow>
     (case getProp artworkData ''artworkName'' of Inl e \<Rightarrow> Inl e | Inr n \<Rightarrow>
     (case getProp artworkData ''status'' of Inl e \<Rightarrow> Inl e | Inr s \<Rightarrow>
        Inr \<lparr>id' = key, encryptedData = d, timestamp = t, owner = ow, artworkName = n,
             status = orElse s (JStr ''pending'')\<rparr>)))))"

text \<open>
  One round of the loop over the keys (line 105 to 126). The key of the blob is made
  first (line 107); if that throws, the handler of the round (line 124) prints the id
  into its own message, throws in turn, and the exception leaves the loop (\<open>Inl\<close>).
  Otherwise a rejected \<^verbatim>\<open>getData\<close> is caught by the outer \<^verbatim>\<open>try\<close> of the
  round, a blob of length 0 is passed over, a blob that does not parse or whose
  properties cannot be read is caught by the inner \<^verbatim>\<open>try\<close>; in each of these
  cases the list is left as it is and the loop goes on.
\<close>

definition loadOne ::
  "env \<Rightarrow> ledger \<Rightarrow> json \<Rightarrow> ArtworkRecord list \<Rightarrow> error + ArtworkRecord list" where
  "loadOne env led key list =
     (case toStringJ env key of
        Inl e \<Rightarrow> Inl e
      | Inr name \<Rightarrow>
          (case getData env led (''artwork_'' @ name) of
             Inl e \<Rightarrow> Inr list
           | Inr artworkBytes \<Rightarrow>
               (case artworkBytes of
                  Empty \<Rightarrow> Inr list
                | Unparsable \<Rightarrow> Inr list
                | Parsed artworkData \<Rightarrow>
                    (case makeRecord key artworkData of
                       Inl e \<Rightarrow> Inr list
                     | Inr r \<Rightarrow> Inr (list @ [r])))))"

fun loadLoop ::
  "env \<Rightarrow> ledger \<Rightarrow> json list \<Rightarrow> ArtworkRecord list \<Rightarrow> error + ArtworkRecord list" where
  "loadLoop env led [] list = Inr list"
| "loadLoop env led (key # keys) list =
     (case loadOne env led key list of
        Inl e \<Rightarrow> Inl e
      | Inr list' \<Rightarrow> loadLoop env led keys list')"

text \<open>\<^verbatim>\<open>(a, b) => b.timestamp - a.timestamp\<close>\<close>

definition compareTimestamps :: "env \<Rightarrow> ArtworkRecord \<Rightarrow> ArtworkRecord \<Rightarrow> error + sign" where
  "compareTimestamps env a b = minusSign env (timestamp b) (timestamp a)"

text \<open>
  \<^verbatim>\<open>list.sort(cmp)\<close>: an empty list has nothing to compare and stays empty; any
  other list is sorted by the engine.
\<close>

definition sortList ::
  "env \<Rightarrow> (ArtworkRecord \<Rightarrow> ArtworkRecord \<Rightarrow> error + sign) \<Rightarrow>
   ArtworkRecord list \<Rightarrow> error + ArtworkRecord list" where
  "sortList env cmp list = (if list = [] then Inr [] else arraySort env cmp list)"

text \<open>
  The body of the \<^verbatim>\<open>try\<close> block of \<^verbatim>\<open>loadArtworks\<close> (line 82 to 129).
  \<open>Inl e\<close>: an exception reaches the \<^verbatim>\<open>catch\<close> of line 130; \<open>Inr None\<close>: one
  of the two early \<^verbatim>\<open>return\<close>s, \<^verbatim>\<open>setArtworks\<close> is not called;
  \<open>Inr (Some list)\<close>: \<^verbatim>\<open>setArtworks(list)\<close> is called.
\<close>

definition loadArtworksBody :: "env \<Rightarrow> ledger \<Rightarrow> error + ArtworkRecord list option" where
  "loadArtworksBody env led =
     (case getContractReadOnly env of
        Inl e \<Rightarrow> Inl e
      | Inr contract \<Rightarrow>
          if \<not> contract then Inr None
          else
            (case isAvailable env of
               Inl e \<Rightarrow> Inl e
             | Inr avail \<Rightarrow>
                 if \<not> avail then Inr None
                 else
                   (case getData env led ''artwork_keys'' of
                      Inl e \<Rightarrow> Inl e
                    | Inr keysBytes \<Rightarrow>
                        (case iterate (parseKeys keysBytes) of
                           Inl e \<Rightarrow> Inl e
                         | Inr keys \<Rightarrow>
                             (case loadLoop env led keys [] of
                                Inl e \<Rightarrow> Inl e
                              | Inr list \<Rightarrow>
                                  (case sortList env (compareTimestamps env) list of
                                     Inl e \<Rightarrow> Inl e
                                   | Inr ordered \<Rightarrow> Inr (Some ordered)))))))"

text \<open>
  \<^verbatim>\<open>loadArtworks\<close>: the flag is raised, the body runs, the \<^verbatim>\<open>catch\<close> only logs,
  and \<^verbatim>\<open>finally\<close> lowers both flags. The ledger is only read.
\<close>

definition loadArtworks :: "env \<Rightarrow> ledger \<Rightarrow> AppState \<Rightarrow> AppState" where
  "loadArtworks env led st =
     (let st1 = st\<lparr>isRefreshing := True\<rparr>;
          st2 = (case loadArtworksBody env led of
                   Inr (Some list) \<Rightarrow> st1\<lparr>artworks := list\<rparr>
                 | Inr None \<Rightarrow> st1
                 | Inl e \<Rightarrow> st1)
      in st2\<lparr>isRefreshing := False, loading := False\<rparr>)"

section \<open>uploadArtwork\<close>

text \<open>
  The \<^verbatim>\<open>try\<close> block of \<^verbatim>\<open>uploadArtwork\<close> up to the second write (line 152
  to 192), in the order of the source: encode the form, get the signing contract, make
  the id and the record, write the record under \<^verbatim>\<open>artwork_\<close> followed by the id, read the
  index, append the id, write the index. The result pairs the outcome with the ledger
  reached, since a write that was acknowledged stays when a later step throws.
\<close>

definition newArtworkId :: "env \<Rightarrow> string" where
  "newArtworkId env = showNat (dateNowId env) @ ''-'' @ randomSuffix env"

definition newArtwork :: "env \<Rightarrow> AppState \<Rightarrow> string \<Rightarrow> json" where
  "newArtwork env st encrypted =
     JObj [(''data'', JStr (''FHE-'' @ encrypted)),
           (''timestamp'', JNum (int (dateNowStamp env div 1000))),
           (''owner'', JStr (account st)),
           (''artworkName'', JStr (artworkName' (newArtworkData st))),
           (''status'', JStr ''pending'')]"

definition uploadBody :: "env \<Rightarrow> AppState \<Rightarrow> ledger \<Rightarrow> (error + unit) \<times> ledger" where
  "uploadBody env st led =
     (case btoaJson env (newArtworkData st) of
        Inl e \<Rightarrow> (Inl e, led)
      | Inr encrypted \<Rightarrow>
     (case getContractWithSigner env of
        Inl e \<Rightarrow> (Inl e, led)
      | Inr contract \<Rightarrow>
          if \<not> contract then (Inl (Error (Some ''Failed to get contract with signer'')), led)
          else
     (case setData env led (''artwork_'' @ newArtworkId env)
             (Parsed (newArtwork env st encrypted)) of
        Inl e \<Rightarrow> (Inl e, led)
      | Inr led1 \<Rightarrow>
     (case getData env led1 ''artwork_keys'' of
        Inl e \<Rightarrow> (Inl e, led1)
      | Inr keysBytes \<Rightarrow>
     (case push (parseKeys keysBytes) (JStr (newArtworkId env)) of
        Inl e \<Rightarrow> (Inl e, led1)
      | Inr keys \<Rightarrow>
     (case setData env led1 ''artwork_keys'' (Parsed keys) of
        Inl e \<Rightarrow> (Inl e, led1)
      | Inr led2 \<Rightarrow> (Inr (), led2)))))))"

text \<open>\<^verbatim>\<open>e.message || "Unknown error"\<close>\<close>

fun orUnknown :: "string option \<Rightarrow> string" where
  "orUnknown None = ''Unknown error''"
| "orUnknown (Some m) = (if m = [] then ''Unknown error'' else m)"

text \<open>
  \<^verbatim>\<open>
  const errorMessage = e.message.includes("user rejected transaction")
    ? "Transaction rejected by user"
    : "Submission failed: " + (e.message || "Unknown error");
  \<close>
  \<^verbatim>\<open>includes\<close> is called on the message before the fallback of the last line is
  reached: when the value caught has no message, the call throws a TypeError inside the
  handler and no text is made.
\<close>

definition uploadErrorMessage :: "error \<Rightarrow> error + string" where
  "uploadErrorMessage e =
     (case message e of
        None \<Rightarrow> Inl (Error (Some ''Cannot read properties of undefined (reading includes)''))
      | Some m \<Rightarrow>
          Inr (if includesStr m ''user rejected transaction''
               then ''Transaction rejected by user''
               else ''Submission failed: '' @ orUnknown (message e)))"

text \<open>
  \<^verbatim>\<open>uploadArtwork\<close>: without a provider nothing happens (an alert); otherwise the
  pending notice is shown, the body runs, on success the success notice is shown and
  \<^verbatim>\<open>loadArtworks\<close> is awaited, on an exception the handler makes the text of the
  error notice and shows it, and \<^verbatim>\<open>finally\<close> lowers \<open>uploading\<close>. When the
  handler itself throws, \<^verbatim>\<open>finally\<close> still runs and the promise is rejected; the
  notice is then the one shown last, the pending one.
\<close>

definition uploadArtwork :: "env \<Rightarrow> AppState \<Rightarrow> ledger \<Rightarrow> AppState \<times> ledger" where
  "uploadArtwork env st led =
     (if \<not> provider st then (st, led)
      else
        let st1 = st\<lparr>uploading := True,
                     transactionStatus :=
                       \<lparr>visible = True, status' = ''pending'',
                        message' = ''Encrypting hyperspectral data with FHE...''\<rparr>\<rparr>
        in (case uploadBody env st1 led of
              (Inr u, led') \<Rightarrow>
                ((loadArtworks env led'
                    (st1\<lparr>transactionStatus :=
                           \<lparr>visible = True, status' = ''success'',
                            message' = ''Encrypted data submitted securely!''\<rparr>\<rparr>))
                 \<lparr>uploading := False\<rparr>, led')
            | (Inl e, led') \<Rightarrow>
                (case uploadErrorMessage e of
                   Inr errorMessage \<Rightarrow>
                     (st1\<lparr>transactionStatus :=
                            \<lparr>visible = True, status' = ''error'',
                             message' = errorMessage\<rparr>,
                          uploading := False\<rparr>, led')
                 | Inl thrown \<Rightarrow> (st1\<lparr>uploading := False\<rparr>, led'))))"

section \<open>markAsAuthentic and markAsForgery\<close>

text \<open>\<^verbatim>\<open>{ ...artworkData, status: s }\<close>\<close>

definition withStatus :: "json \<Rightarrow> string \<Rightarrow> json" where
  "withStatus artworkData s = JObj (setProp ''status'' (JStr s) (ownEntries artworkData))"

text \<open>
  The \<^verbatim>\<open>try\<close> blocks of the two functions up to the write (line 246 to 266 and
  308 to 328) are the same text but for the status written: get the signing contract,
  read the blob, throw \<^verbatim>\<open>Artwork not found\<close> if it has length 0, parse it, spread
  it under the new status, write it back under the same key. No step compares the
  record's owner or its current status with anything. The three seconds the functions
  wait before the first step change nothing and are left out.
\<close>

definition markBody :: "env \<Rightarrow> ledger \<Rightarrow> string \<Rightarrow> string \<Rightarrow> error + ledger" where
  "markBody env led artworkId newStatus =
     (case getContractWithSigner env of
        Inl e \<Rightarrow> Inl e
      | Inr contract \<Rightarrow>
          if \<not> contract then Inl (Error (Some ''Failed to get contract with signer''))
          else
            (case getData env led (''artwork_'' @ artworkId) of
               Inl e \<Rightarrow> Inl e
             | Inr artworkBytes \<Rightarrow>
                 (case artworkBytes of
                    Empty \<Rightarrow> Inl (Error (Some ''Artwork not found''))
                  | Unparsable \<Rightarrow> Inl (Error (Some ''Unexpected token in JSON''))
                  | Parsed artworkData \<Rightarrow>
                      setData env led (''artwork_'' @ artworkId)
                        (Parsed (withStatus artworkData newStatus)))))"

definition markAsAuthentic :: "env \<Rightarrow> AppState \<Rightarrow> ledger \<Rightarrow> string \<Rightarrow> AppState \<times> ledger" where
  "markAsAuthentic env st led artworkId =
     (if \<not> provider st then (st, led)
      else
        let st1 = st\<lparr>transactionStatus :=
                       \<lparr>visible = True, status' = ''pending'',
                        message' = ''Processing encrypted data with FHE...''\<rparr>\<rparr>
        in (case markBody env led artworkId ''authentic'' of
              Inr led' \<Rightarrow>
                (loadArtworks env led'
                   (st1\<lparr>transactionStatus :=
                          \<lparr>visible = True, status' = ''success'',
                           message' = ''FHE verification completed - Artwork is authentic!''\<rparr>\<rparr>),
                 led')
            | Inl e \<Rightarrow>
                (st1\<lparr>transactionStatus :=
                       \<lparr>visible = True, status' = ''error'',
                        message' = ''Verification failed: '' @ orUnknown (message e)\<rparr>\<rparr>,
                 led)))"

definition markAsForgery :: "env \<Rightarrow> AppState \<Rightarrow> ledger \<Rightarrow> string \<Rightarrow> AppState \<times> ledger" where
  "markAsForgery env st led artworkId =
     (if \<not> provider st then (st, led)
      else
        let st1 = st\<lparr>transactionStatus :=
                       \<lparr>visible = True, status' = ''pending'',
                        message' = ''Processing encrypted data with FHE...''\<rparr>\<rparr>
        in (case markBody env led artworkId ''forgery'' of
              Inr led' \<Rightarrow>
                (loadArtworks env led'
                   (st1\<lparr>transactionStatus :=
                          \<lparr>visible = True, status' = ''success'',
                           message' = ''FHE analysis completed - Artwork is a forgery!''\<rparr>\<rparr>),
                 led')
            | Inl e \<Rightarrow>
                (st1\<lparr>transactionStatus :=
                       \<lparr>visible = True, status' = ''error'',
                        message' = ''Analysis failed: '' @ orUnknown (message e)\<rparr>\<rparr>,
                 led)))"

section \<open>Where the buttons are rendered\<close>

text \<open>
  \<^verbatim>\<open>
  const isOwner = (address: string) => {
    return account.toLowerCase() === address.toLowerCase();
  };
  \<close>
\<close>

definition isOwner :: "AppState \<Rightarrow> string \<Rightarrow> bool" where
  "isOwner st address = (toLowerCase (account st) = toLowerCase address)"

text \<open>
  The only use of \<^verbatim>\<open>isOwner\<close> is in the card of a cached record (line 535):
  \<^verbatim>\<open>
  {isOwner(artwork.owner) && artwork.status === "pending" && (
     <> <button onClick={() => markAsAuthentic(artwork.id)}> ...
        <button onClick={() => markAsForgery(artwork.id)}> ... </>)}
  \<close>
  \<open>showsActions\<close> is whether the two buttons are rendered for a record of the cache. An
  owner that is not a string has no \<^verbatim>\<open>toLowerCase\<close>: rendering throws and shows
  nothing.
\<close>

definition showsActions :: "AppState \<Rightarrow> ArtworkRecord \<Rightarrow> bool" where
  "showsActions st artwork =
     (case owner artwork of
        Some (JStr address) \<Rightarrow> isOwner st address \<and> status artwork = JStr ''pending''
      | _ \<Rightarrow> False)"

section \<open>A small ledger, an environment and a session\<close>

text \<open>
  Concrete data on which the operations are run below. The ledger holds one record,
  \<^verbatim>\<open>a1\<close>, created by the account \<^verbatim>\<open>0xAbCd...Ef01\<close>; \<open>exampleLedger s\<close> has
  it in status \<open>s\<close>. In the environment every remote call succeeds, and the clock and
  the random suffix are fixed. The text \<open>btoaJson\<close> returns is the base64 form of the
  JSON text of the form held by \<open>exampleState\<close>.

  The engine of the example prints a number by its digits (\<open>showInt\<close>, what every
  engine prints for a whole number of magnitude below 2^53), subtracts as \<open>exampleMinus\<close>
  does, and sorts by insertion, which is stable and throws as soon as a call of the
  comparator does. \<open>exampleMinus\<close> is the subtraction of the language on the values
  that need no parsing of text: \<^verbatim>\<open>undefined\<close> and an object without a
  \<^verbatim>\<open>toString\<close> of its own count as \<^verbatim>\<open>NaN\<close>, \<^verbatim>\<open>null\<close> and
  \<^verbatim>\<open>false\<close> as 0, \<^verbatim>\<open>true\<close> as 1, an object with a \<^verbatim>\<open>toString\<close> of
  its own throws; the left operand is coerced first. The examples hold no timestamp that
  is a string or an array.
\<close>

definition showInt :: "int \<Rightarrow> string" where
  "showInt i = (if i < 0 then CHR ''-'' # showNat (nat (- i)) else showNat (nat i))"

fun exampleNumber :: "json option \<Rightarrow> error + int option" where
  "exampleNumber (Some (JNum n)) = Inr (Some n)"
| "exampleNumber (Some JNull) = Inr (Some 0)"
| "exampleNumber (Some (JBool b)) = Inr (Some (if b then 1 else 0))"
| "exampleNumber (Some (JObj fs)) =
     (if ''toString'' \<in> fst ` set fs
      then Inl (Error (Some ''Cannot convert object to primitive value''))
      else Inr None)"
| "exampleNumber v = Inr None"

definition exampleMinus :: "json option \<Rightarrow> json option \<Rightarrow> error + sign" where
  "exampleMinus x y =
     (case exampleNumber x of
        Inl e \<Rightarrow> Inl e
      | Inr m \<Rightarrow>
          (case exampleNumber y of
             Inl e \<Rightarrow> Inl e
           | Inr n \<Rightarrow>
               (case (m, n) of
                  (Some a, Some b) \<Rightarrow>
                    Inr (if a < b then Negative else if b < a then Positive else Neither)
                | _ \<Rightarrow> Inr Neither)))"

fun insertSorted :: "('a \<Rightarrow> 'a \<Rightarrow> error + sign) \<Rightarrow> 'a \<Rightarrow> 'a list \<Rightarrow> error + 'a list" where
  "insertSorted cmp x [] = Inr [x]"
| "insertSorted cmp x (y # ys) =
     (case cmp x y of
        Inl e \<Rightarrow> Inl e
      | Inr s \<Rightarrow>
          if s = Positive
          then (case insertSorted cmp x ys of
                  Inl e \<Rightarrow> Inl e
                | Inr zs \<Rightarrow> Inr (y # zs))
          else Inr (x # y # ys))"

fun insertionSort :: "('a \<Rightarrow> 'a \<Rightarrow> error + sign) \<Rightarrow> 'a list \<Rightarrow> error + 'a list" where
  "insertionSort cmp [] = Inr []"
| "insertionSort cmp (x # xs) =
     (case insertionSort cmp xs of
        Inl e \<Rightarrow> Inl e
      | Inr ys \<Rightarrow> insertSorted cmp x ys)"

definition exampleEnv :: env where
  "exampleEnv =
     \<lparr>getContractReadOnly = Inr True,
      getContractWithSigner = Inr True,
      isAvailable = Inr True,
      getDataThrows = (\<lambda>key. None),
      setDataThrows = (\<lambda>key. None),
      numberToString = showInt,
      minusSign = exampleMinus,
      arraySort = insertionSort,
      btoaJson = (\<lambda>form. Inr ''eyJhcnR3b3JrTmFtZSI6IlN0YXJyeSBOaWdodCIsImRlc2NyaXB0aW9uIjoiIiwiaHlwZXJzcGVjdHJhbERhdGEiOiJhYmMifQ==''),
      dateNowId = 1730534400123,
      randomSuffix = ''k3x9q2a'',
      dateNowStamp = 1730534400123\<rparr>"

definition monaLisa :: "string \<Rightarrow> json" where
  "monaLisa s =
     JObj [(''data'', JStr ''FHE-e30=''),
           (''timestamp'', JNum 1730000000),
           (''owner'', JStr ''0xAbCdEf0123456789aBcDeF0123456789AbCdEf01''),
           (''artworkName'', JStr ''Mona Lisa''),
           (''status'', JStr s)]"

definition exampleLedger :: "string \<Rightarrow> ledger" where
  "exampleLedger s =
     \<lparr>store = (\<lambda>key. Empty)
        (''artwork_keys'' := Parsed (JArr [JStr ''a1'']),
         ''artwork_a1'' := Parsed (monaLisa s)),
      writes = []\<rparr>"

text \<open>A session just started, with a wallet connected under the given account and the
  upload form filled in.\<close>

definition exampleState :: "string \<Rightarrow> AppState" where
  "exampleState acc =
     \<lparr>account = acc,
      provider = True,
      artworks = [],
      isRefreshing = False,
      loading = True,
      uploading = False,
      transactionStatus = \<lparr>visible = False, status' = ''pending'', message' = []\<rparr>,
      newArtworkData =
        \<lparr>artworkName' = ''Starry Night'', description = [], hyperspectralData = ''abc''\<rparr>\<rparr>"

text \<open>The record of the cache that \<^verbatim>\<open>loadArtworks\<close> builds from \<open>monaLisa ''pending''\<close>,
  and the blob \<^verbatim>\<open>uploadArtwork\<close> writes in this environment for account \<open>acc\<close>.\<close>

definition cachedMonaLisa :: ArtworkRecord where
  "cachedMonaLisa =
     \<lparr>id' = JStr ''a1'',
      encryptedData = Some (JStr ''FHE-e30=''),
      timestamp = Some (JNum 1730000000),
      owner = Some (JStr ''0xAbCdEf0123456789aBcDeF0123456789AbCdEf01''),
      artworkName = Some (JStr ''Mona Lisa''),
      status = JStr ''pending''\<rparr>"

definition starryNight :: "string \<Rightarrow> json" where
  "starryNight acc =
     JObj [(''data'', JStr ''FHE-eyJhcnR3b3JrTmFtZSI6IlN0YXJyeSBOaWdodCIsImRlc2NyaXB0aW9uIjoiIiwiaHlwZXJzcGVjdHJhbERhdGEiOiJhYmMifQ==''),
           (''timestamp'', JNum 1730534400),
           (''owner'', JStr acc),
           (''artworkName'', JStr ''Starry Night''),
           (''status'', JStr ''pending'')]"

section \<open>Auxiliary facts\<close>

subsection \<open>Identifiers\<close>

lemma showNat_nonempty: "showNat n \<noteq> []"
  by (induction n rule: showNat.induct) (subst showNat.simps, simp)

lemma hd_showNat: "hd (showNat n) \<in> set ''0123456789''"
proof (induction n rule: showNat.induct)
  case (1 n)
  show ?case
  proof (cases "n < 10")
    case True
    then have "n \<in> {0, 1, 2, 3, 4, 5, 6, 7, 8, 9}" by auto
    then show ?thesis by (subst showNat.simps) auto
  next
    case False
    then show ?thesis
      using 1 showNat_nonempty [of "n div 10"] by (subst showNat.simps) simp
  qed
qed

text \<open>A generated id starts with a digit, so the key of a new record is never the key of
  the index.\<close>

lemma newArtworkId_not_keys: "newArtworkId env \<noteq> ''keys''"
proof
  assume "newArtworkId env = ''keys''"
  then have eq: "showNat (dateNowId env) @ ''-'' @ randomSuffix env = ''keys''"
    by (simp add: newArtworkId_def)
  obtain c cs where cs: "showNat (dateNowId env) = c # cs"
    using showNat_nonempty [of "dateNowId env"] by (cases "showNat (dateNowId env)") auto
  with eq have "c = CHR ''k''" by simp
  moreover have "c \<in> set ''0123456789''"
    using hd_showNat [of "dateNowId env"] cs by simp
  ultimately show False by simp
qed

lemma newArtworkId_keys_iff [simp]:
  "(newArtworkId env = ''keys'') = False" "(''keys'' = newArtworkId env) = False"
  using newArtworkId_not_keys [of env] by auto

subsection \<open>Objects and sorting\<close>

lemma map_of_setProp_same: "map_of (setProp p v fs) p = Some v"
  by (induction fs) auto

lemma map_of_setProp_other: "q \<noteq> p \<Longrightarrow> map_of (setProp p v fs) q = map_of fs q"
  by (induction fs) auto

lemma names_setProp:
  "map fst (setProp p v fs) = (if p \<in> fst ` set fs then map fst fs else map fst fs @ [p])"
  by (induction fs) (force split: if_splits)+

text \<open>The sort of the example engine returns a rearrangement of its input.\<close>

lemma set_insertSorted: "insertSorted cmp x ys = Inr zs \<Longrightarrow> set zs = insert x (set ys)"
proof (induction ys arbitrary: zs)
  case Nil
  then show ?case by auto
next
  case (Cons y ys)
  show ?case
  proof (cases "cmp x y")
    case (Inl e)
    with Cons.prems show ?thesis by simp
  next
    case (Inr s)
    show ?thesis
    proof (cases "s = Positive")
      case True
      with Inr Cons.prems obtain ws where ws: "insertSorted cmp x ys = Inr ws" "zs = y # ws"
        by (cases "insertSorted cmp x ys") auto
      from Cons.IH [OF ws(1)] ws(2) show ?thesis by auto
    next
      case False
      with Inr Cons.prems show ?thesis by auto
    qed
  qed
qed

lemma set_insertionSort: "insertionSort cmp xs = Inr ys \<Longrightarrow> set ys = set xs"
proof (induction xs arbitrary: ys)
  case Nil
  then show ?case by simp
next
  case (Cons x xs)
  then obtain zs where zs: "insertionSort cmp xs = Inr zs" "insertSorted cmp x zs = Inr ys"
    by (cases "insertionSort cmp xs") auto
  from Cons.IH [OF zs(1)] set_insertSorted [OF zs(2)] show ?case by simp
qed

subsection \<open>The loop of loadArtworks\<close>

lemma loadLoop_append:
  "loadLoop env led (ks1 @ ks2) acc =
     (case loadLoop env led ks1 acc of
        Inl e \<Rightarrow> Inl e
      | Inr list \<Rightarrow> loadLoop env led ks2 list)"
  by (induction ks1 arbitrary: acc) (auto split: sum.splits)

lemma loadOne_mono: "loadOne env led k acc = Inr list \<Longrightarrow> set acc \<subseteq> set list"
  by (auto simp: loadOne_def split: sum.splits blob.splits)

lemma loadLoop_mono: "loadLoop env led ks acc = Inr list \<Longrightarrow> set acc \<subseteq> set list"
proof (induction ks arbitrary: acc)
  case Nil
  then show ?case by simp
next
  case (Cons k ks)
  then obtain mid where mid: "loadOne env led k acc = Inr mid" "loadLoop env led ks mid = Inr list"
    by (auto split: sum.splits)
  from loadOne_mono [OF mid(1)] Cons.IH [OF mid(2)] show ?case by blast
qed

lemma loadOne_skip:
  assumes "toStringJ env k = Inr name"
    and "getDataThrows env (''artwork_'' @ name) \<noteq> None
         \<or> store led (''artwork_'' @ name) = Empty
         \<or> store led (''artwork_'' @ name) = Unparsable"
  shows "loadOne env led k acc = Inr acc"
  using assms by (auto simp: loadOne_def getData_def split: option.splits)

lemma loadOne_good:
  assumes "toStringJ env k = Inr name"
    and "getDataThrows env (''artwork_'' @ name) = None"
    and "store led (''artwork_'' @ name) = Parsed a"
    and "makeRecord k a = Inr r"
  shows "loadOne env led k acc = Inr (acc @ [r])"
  using assms by (simp add: loadOne_def getData_def)

lemma loadOne_prints:
  assumes "toStringJ env k = Inr name"
  shows "\<exists>list. loadOne env led k acc = Inr list"
  using assms by (simp add: loadOne_def split: sum.splits blob.splits)

text \<open>The loop runs to its end when every id can be printed.\<close>

lemma loadLoop_prints:
  assumes "\<forall>k \<in> set ks. \<exists>name. toStringJ env k = Inr name"
  shows "\<exists>list. loadLoop env led ks acc = Inr list"
  using assms
proof (induction ks arbitrary: acc)
  case Nil
  show ?case by simp
next
  case (Cons k ks)
  then obtain name where "toStringJ env k = Inr name" by auto
  from loadOne_prints [OF this] obtain mid where "loadOne env led k acc = Inr mid" by blast
  moreover from Cons obtain list where "loadLoop env led ks mid = Inr list" by force
  ultimately show ?case by simp
qed

lemma loadLoop_skip:
  assumes "toStringJ env k = Inr name"
    and "getDataThrows env (''artwork_'' @ name) \<noteq> None
         \<or> store led (''artwork_'' @ name) = Empty
         \<or> store led (''artwork_'' @ name) = Unparsable"
  shows "loadLoop env led (ks1 @ k # ks2) acc = loadLoop env led (ks1 @ ks2) acc"
  using loadOne_skip [OF assms]
  by (simp add: loadLoop_append split: sum.splits)

lemma loadLoop_member:
  assumes "loadLoop env led ks acc = Inr list"
    and "k \<in> set ks"
    and "toStringJ env k = Inr name"
    and "getDataThrows env (''artwork_'' @ name) = None"
    and "store led (''artwork_'' @ name) = Parsed a"
    and "makeRecord k a = Inr r"
  shows "r \<in> set list"
proof -
  from assms(2) obtain ks1 ks2 where ks: "ks = ks1 @ k # ks2"
    by (auto simp: in_set_conv_decomp)
  from assms(1) obtain mid where mid: "loadLoop env led ks1 acc = Inr mid"
      "loadLoop env led ks2 (mid @ [r]) = Inr list"
    using loadOne_good [OF assms(3-6)]
    by (auto simp: ks loadLoop_append split: sum.splits)
  from loadLoop_mono [OF mid(2)] show ?thesis by auto
qed

lemma makeRecord_pending:
  assumes "a \<noteq> JNull"
    and "getProp a ''status'' = Inr None \<or> getProp a ''status'' = Inr (Some (JStr ''''))"
  shows "\<exists>r. makeRecord k a = Inr r \<and> id' r = k \<and> status r = JStr ''pending''"
  using assms by (cases a) (auto simp: makeRecord_def)

subsection \<open>What loadArtworks leaves of the state\<close>

lemma loadArtworks_artworks:
  "artworks (loadArtworks env led st) =
     (case loadArtworksBody env led of Inr (Some list) \<Rightarrow> list | _ \<Rightarrow> artworks st)"
  by (simp add: loadArtworks_def Let_def split: sum.splits option.splits)

lemma loadArtworks_transactionStatus:
  "transactionStatus (loadArtworks env led st) = transactionStatus st"
  by (simp add: loadArtworks_def Let_def split: sum.splits option.splits)

lemma loadArtworks_provider: "provider (loadArtworks env led st) = provider st"
  by (simp add: loadArtworks_def Let_def split: sum.splits option.splits)

lemma loadArtworks_account:
  "loadArtworks env led (st\<lparr>account := a\<rparr>) = (loadArtworks env led st)\<lparr>account := a\<rparr>"
  by (simp add: loadArtworks_def Let_def split: sum.splits option.splits)

lemma loadArtworksBody_ready:
  assumes "getContractReadOnly env = Inr True" and "isAvailable env = Inr True"
    and "getDataThrows env ''artwork_keys'' = None"
  shows "loadArtworksBody env led =
           (case iterate (parseKeys (store led ''artwork_keys'')) of
              Inl e \<Rightarrow> Inl e
            | Inr keys \<Rightarrow>
                (case loadLoop env led keys [] of
                   Inl e \<Rightarrow> Inl e
                 | Inr list \<Rightarrow>
                     (case sortList env (compareTimestamps env) list of
                        Inl e \<Rightarrow> Inl e
                      | Inr ordered \<Rightarrow> Inr (Some ordered))))"
  using assms by (simp add: loadArtworksBody_def getData_def)

subsection \<open>The ways uploadArtwork can end\<close>

lemma newArtwork_state:
  "newArtwork env (st\<lparr>uploading := u, transactionStatus := t\<rparr>) b = newArtwork env st b"
  by (simp add: newArtwork_def)

lemma uploadBody_state:
  "uploadBody env (st\<lparr>uploading := u, transactionStatus := t\<rparr>) led = uploadBody env st led"
  by (simp add: uploadBody_def newArtwork_state cong: sum.case_cong if_cong)

text \<open>The body ends before any write, after the write of the record, or after both
  writes, and only the last is a success.\<close>

lemma uploadBody_shape:
  "(\<exists>e. uploadBody env st led = (Inl e, led))
   \<or> (\<exists>e b. btoaJson env (newArtworkData st) = Inr b
         \<and> uploadBody env st led =
             (Inl e, led\<lparr>store := (store led)(''artwork_'' @ newArtworkId env := Parsed (newArtwork env st b)),
                        writes := writes led @ [(''artwork_'' @ newArtworkId env, Parsed (newArtwork env st b))]\<rparr>))
   \<or> (\<exists>b ks. btoaJson env (newArtworkData st) = Inr b
         \<and> uploadBody env st led =
             (Inr (), led\<lparr>store := (store led)
                            (''artwork_'' @ newArtworkId env := Parsed (newArtwork env st b),
                             ''artwork_keys'' := Parsed (JArr (ks @ [JStr (newArtworkId env)]))),
                        writes := writes led @
                          [(''artwork_'' @ newArtworkId env, Parsed (newArtwork env st b)),
                           (''artwork_keys'', Parsed (JArr (ks @ [JStr (newArtworkId env)])))]\<rparr>))"
proof (cases "btoaJson env (newArtworkData st)")
  case (Inl e)
  then show ?thesis by (simp add: uploadBody_def)
next
  case (Inr b)
  let ?led1 = "led\<lparr>store := (store led)(''artwork_'' @ newArtworkId env := Parsed (newArtwork env st b)),
                        writes := writes led @ [(''artwork_'' @ newArtworkId env, Parsed (newArtwork env st b))]\<rparr>"
  show ?thesis
  proof (cases "parseKeys (store ?led1 ''artwork_keys'')")
    case (JArr ks)
    with Inr show ?thesis
      by (auto simp: uploadBody_def setData_def getData_def
               split: sum.splits option.splits)
  qed (use Inr in \<open>simp_all add: uploadBody_def setData_def getData_def
               split: sum.splits option.splits\<close>)
qed

lemma uploadBody_store_other:
  assumes "key \<noteq> ''artwork_'' @ newArtworkId env" and "key \<noteq> ''artwork_keys''"
  shows "store (snd (uploadBody env st led)) key = store led key"
  using uploadBody_shape [of env st led] assms by auto

lemma uploadBody_writes:
  "\<exists>r i. writes (snd (uploadBody env st led)) = writes led
       \<or> writes (snd (uploadBody env st led)) =
            writes led @ [(''artwork_'' @ newArtworkId env, r)]
       \<or> writes (snd (uploadBody env st led)) =
            writes led @ [(''artwork_'' @ newArtworkId env, r), (''artwork_keys'', i)]"
  using uploadBody_shape [of env st led] by auto

lemma uploadBody_success:
  assumes "fst (uploadBody env st led) = Inr u"
  shows "\<exists>b ks. snd (uploadBody env st led) =
           led\<lparr>store := (store led)
                   (''artwork_'' @ newArtworkId env := Parsed (newArtwork env st b),
                    ''artwork_keys'' := Parsed (JArr (ks @ [JStr (newArtworkId env)]))),
               writes := writes led @
                   [(''artwork_'' @ newArtworkId env, Parsed (newArtwork env st b)),
                    (''artwork_keys'', Parsed (JArr (ks @ [JStr (newArtworkId env)])))]\<rparr>"
proof -
  from uploadBody_shape [of env st led] assms obtain b ks where
    "uploadBody env st led =
       (Inr (), led\<lparr>store := (store led)
                   (''artwork_'' @ newArtworkId env := Parsed (newArtwork env st b),
                    ''artwork_keys'' := Parsed (JArr (ks @ [JStr (newArtworkId env)]))),
               writes := writes led @
                   [(''artwork_'' @ newArtworkId env, Parsed (newArtwork env st b)),
                    (''artwork_keys'', Parsed (JArr (ks @ [JStr (newArtworkId env)])))]\<rparr>)"
    by (elim disjE exE conjE) simp_all
  then show ?thesis
    by (intro exI [of _ b] exI [of _ ks]) simp
qed

text \<open>An exception of the body whose value has a message: the error notice is shown.\<close>

lemma uploadArtwork_failure:
  assumes "provider st" and "uploadBody env st led = (Inl e, led')"
    and "uploadErrorMessage e = Inr errorMessage"
  shows "uploadArtwork env st led =
           (st\<lparr>uploading := False,
               transactionStatus :=
                 \<lparr>visible = True, status' = ''error'', message' = errorMessage\<rparr>\<rparr>, led')"
  using assms by (simp add: uploadArtwork_def Let_def uploadBody_state)

text \<open>An exception of the body whose value has no message: the handler throws, and the
  pending notice stays.\<close>

lemma uploadArtwork_failure_thrown:
  assumes "provider st" and "uploadBody env st led = (Inl e, led')"
    and "uploadErrorMessage e = Inl thrown"
  shows "uploadArtwork env st led =
           (st\<lparr>uploading := False,
               transactionStatus :=
                 \<lparr>visible = True, status' = ''pending'',
                  message' = ''Encrypting hyperspectral data with FHE...''\<rparr>\<rparr>, led')"
  using assms by (simp add: uploadArtwork_def Let_def uploadBody_state)

lemma uploadArtwork_success_iff:
  "provider st \<Longrightarrow>
   (status' (transactionStatus (fst (uploadArtwork env st led))) = ''success'') =
     (\<exists>u. fst (uploadBody env st led) = Inr u)"
  by (simp add: uploadArtwork_def Let_def uploadBody_state loadArtworks_transactionStatus
        split: prod.splits sum.splits)

lemma uploadArtwork_ledger:
  "snd (uploadArtwork env st led) = (if provider st then snd (uploadBody env st led) else led)"
  by (simp add: uploadArtwork_def Let_def uploadBody_state split: prod.splits sum.splits)

text \<open>
  An upload whose write is rejected with a value that has a message: the error notice is
  shown with a text made from the message, and the list of records is as before.
\<close>

lemma uploadArtwork_write_rejected_with_message:
  assumes "provider st"
    and "btoaJson env (newArtworkData st) = Inr b"
    and "getContractWithSigner env = Inr True"
    and "setDataThrows env (''artwork_'' @ newArtworkId env) = Some (Error (Some m))
         \<or> (setDataThrows env (''artwork_'' @ newArtworkId env) = None
             \<and> getDataThrows env ''artwork_keys'' = None
             \<and> parseKeys (store led ''artwork_keys'') = JArr ks
             \<and> setDataThrows env ''artwork_keys'' = Some (Error (Some m)))"
  shows "transactionStatus (fst (uploadArtwork env st led)) =
           \<lparr>visible = True, status' = ''error'',
            message' = (if includesStr m ''user rejected transaction''
                        then ''Transaction rejected by user''
                        else ''Submission failed: '' @ (if m = [] then ''Unknown error'' else m))\<rparr>
         \<and> artworks (fst (uploadArtwork env st led)) = artworks st
         \<and> \<not> uploading (fst (uploadArtwork env st led))"
proof -
  have "\<exists>led'. uploadBody env st led = (Inl (Error (Some m)), led')"
    using assms(2-4)
    by (auto simp: uploadBody_def setData_def getData_def)
  then obtain led' where "uploadBody env st led = (Inl (Error (Some m)), led')" ..
  from uploadArtwork_failure [OF assms(1) this, of
      "if includesStr m ''user rejected transaction''
       then ''Transaction rejected by user''
       else ''Submission failed: '' @ (if m = [] then ''Unknown error'' else m)"]
  show ?thesis
    by (simp add: uploadErrorMessage_def)
qed

subsection \<open>The ways a transition can end\<close>

lemma markBody_store_other:
  assumes "markBody env led artworkId s = Inr led'" and "key \<noteq> ''artwork_'' @ artworkId"
  shows "store led' key = store led key"
  using assms
  by (auto simp: markBody_def getData_def setData_def
        split: sum.splits if_splits blob.splits option.splits)

lemma markBody_written:
  assumes "markBody env led artworkId s = Inr led'"
  shows "\<exists>artworkData. store led (''artwork_'' @ artworkId) = Parsed artworkData
           \<and> store led' (''artwork_'' @ artworkId) = Parsed (withStatus artworkData s)"
  using assms
  by (auto simp: markBody_def getData_def setData_def
        split: sum.splits if_splits blob.splits option.splits)

lemma markBody_ok:
  assumes "getContractWithSigner env = Inr True"
    and "getDataThrows env (''artwork_'' @ artworkId) = None"
    and "setDataThrows env (''artwork_'' @ artworkId) = None"
    and "store led (''artwork_'' @ artworkId) = Parsed artworkData"
  shows "markBody env led artworkId s =
           Inr (led\<lparr>store := (store led)
                       (''artwork_'' @ artworkId := Parsed (withStatus artworkData s)),
                    writes := writes led @
                       [(''artwork_'' @ artworkId, Parsed (withStatus artworkData s))]\<rparr>)"
  using assms by (simp add: markBody_def getData_def setData_def)

lemma markAsAuthentic_ledger:
  "snd (markAsAuthentic env st led artworkId) =
     (if provider st
      then (case markBody env led artworkId ''authentic'' of Inr led' \<Rightarrow> led' | Inl e \<Rightarrow> led)
      else led)"
  by (simp add: markAsAuthentic_def Let_def split: sum.splits)

lemma markAsForgery_ledger:
  "snd (markAsForgery env st led artworkId) =
     (if provider st
      then (case markBody env led artworkId ''forgery'' of Inr led' \<Rightarrow> led' | Inl e \<Rightarrow> led)
      else led)"
  by (simp add: markAsForgery_def Let_def split: sum.splits)

lemma markAsAuthentic_status:
  "provider st \<Longrightarrow>
   status' (transactionStatus (fst (markAsAuthentic env st led artworkId))) =
     (case markBody env led artworkId ''authentic'' of Inr led' \<Rightarrow> ''success'' | Inl e \<Rightarrow> ''error'')"
  by (simp add: markAsAuthentic_def Let_def loadArtworks_transactionStatus split: sum.splits)

lemma markAsForgery_status:
  "provider st \<Longrightarrow>
   status' (transactionStatus (fst (markAsForgery env st led artworkId))) =
     (case markBody env led artworkId ''forgery'' of Inr led' \<Rightarrow> ''success'' | Inl e \<Rightarrow> ''error'')"
  by (simp add: markAsForgery_def Let_def loadArtworks_transactionStatus split: sum.splits)

lemma markAsAuthentic_account:
  "markAsAuthentic env (st\<lparr>account := a\<rparr>) led artworkId =
     (fst (markAsAuthentic env st led artworkId)\<lparr>account := a\<rparr>,
      snd (markAsAuthentic env st led artworkId))"
  by (simp add: markAsAuthentic_def loadArtworks_def Let_def split: sum.splits option.splits)

lemma markAsForgery_account:
  "markAsForgery env (st\<lparr>account := a\<rparr>) led artworkId =
     (fst (markAsForgery env st led artworkId)\<lparr>account := a\<rparr>,
      snd (markAsForgery env st led artworkId))"
  by (simp add: markAsForgery_def loadArtworks_def Let_def split: sum.splits option.splits)

subsection \<open>The operations on the example\<close>

lemma example_provider: "provider (exampleState a)"
  by (simp add: exampleState_def)

lemma example_sort: "arraySort exampleEnv cmp list = Inr list' \<Longrightarrow> set list' = set list"
  by (simp add: exampleEnv_def set_insertionSort)

lemma example_load:
  "loadArtworksBody exampleEnv (exampleLedger ''pending'') = Inr (Some [cachedMonaLisa])"
  by (simp add: exampleEnv_def exampleLedger_def monaLisa_def cachedMonaLisa_def
        loadArtworksBody_def getData_def loadOne_def makeRecord_def sortList_def)


lemma example_load_state:
  "artworks (loadArtworks exampleEnv (exampleLedger ''pending'') (exampleState a)) = [cachedMonaLisa]"
  by (simp add: loadArtworks_artworks example_load)

lemma example_mark:
  "markBody exampleEnv (exampleLedger s) ''a1'' t =
     Inr ((exampleLedger s)\<lparr>store := (store (exampleLedger s))
             (''artwork_a1'' := Parsed (monaLisa t)),
           writes := [(''artwork_a1'', Parsed (monaLisa t))]\<rparr>)"
  by (simp add: markBody_def getData_def setData_def exampleEnv_def exampleLedger_def
        withStatus_def monaLisa_def)

lemma example_id: "newArtworkId exampleEnv = ''1730534400123-k3x9q2a''"
  by (simp add: newArtworkId_def exampleEnv_def showNat.simps)

lemma example_newArtwork:
  "btoaJson exampleEnv form = Inr b \<Longrightarrow> newArtwork exampleEnv (exampleState a) b = starryNight a"
  by (auto simp: newArtwork_def exampleEnv_def exampleState_def starryNight_def)

lemma example_upload:
  "uploadBody exampleEnv (exampleState a) (exampleLedger s) =
     (Inr (), (exampleLedger s)\<lparr>store := (store (exampleLedger s))
        (''artwork_1730534400123-k3x9q2a'' := Parsed (starryNight a),
         ''artwork_keys'' := Parsed (JArr [JStr ''a1'', JStr ''1730534400123-k3x9q2a''])),
        writes := [(''artwork_1730534400123-k3x9q2a'', Parsed (starryNight a)),
                   (''artwork_keys'', Parsed (JArr [JStr ''a1'', JStr ''1730534400123-k3x9q2a'']))]\<rparr>)"
proof -
  have b: "btoaJson exampleEnv (newArtworkData (exampleState a)) =
      Inr ''eyJhcnR3b3JrTmFtZSI6IlN0YXJyeSBOaWdodCIsImRlc2NyaXB0aW9uIjoiIiwiaHlwZXJzcGVjdHJhbERhdGEiOiJhYmMifQ==''"
    by (simp add: exampleEnv_def)
  have c: "getContractWithSigner exampleEnv = Inr True" "setDataThrows exampleEnv = (\<lambda>k. None)"
    "getDataThrows exampleEnv = (\<lambda>k. None)"
    by (simp_all add: exampleEnv_def)
  show ?thesis
    by (simp add: uploadBody_def b c example_newArtwork [OF b] example_id setData_def getData_def
          exampleLedger_def)
qed

lemma example_shows:
  "showsActions (exampleState ''0xabcdef0123456789abcdef0123456789abcdef01'') cachedMonaLisa"
  by (simp add: showsActions_def isOwner_def exampleState_def cachedMonaLisa_def
        toLowerCase_def lowerChar_def)

lemma example_not_owner:
  "\<not> isOwner (exampleState ''0x1111111111111111111111111111111111111111'')
        ''0xAbCdEf0123456789aBcDeF0123456789AbCdEf01''"
  by (simp add: isOwner_def exampleState_def toLowerCase_def lowerChar_def)

section \<open>The claims of the specification\<close>

subsection \<open>C1: who may change the status of a record\<close>

text \<open>
  As stated, the claim is that a transition requested by an account other than the
  record's owner fails and leaves the remote record as it was. In the example the
  connected account \<^verbatim>\<open>0x1111...\<close> is not the owner of record \<^verbatim>\<open>a1\<close>, and
  \<^verbatim>\<open>markAsAuthentic("a1")\<close> ends with the success notice and with the remote record
  rewritten to status \<^verbatim>\<open>authentic\<close>.
\<close>

theorem markAsAuthentic_other_owner_counterexample:
  "\<not> isOwner (exampleState ''0x1111111111111111111111111111111111111111'')
        ''0xAbCdEf0123456789aBcDeF0123456789AbCdEf01''
   \<and> store (exampleLedger ''pending'') ''artwork_a1'' = Parsed (monaLisa ''pending'')
   \<and> status' (transactionStatus (fst (markAsAuthentic exampleEnv
        (exampleState ''0x1111111111111111111111111111111111111111'')
        (exampleLedger ''pending'') ''a1''))) = ''success''
   \<and> store (snd (markAsAuthentic exampleEnv
        (exampleState ''0x1111111111111111111111111111111111111111'')
        (exampleLedger ''pending'') ''a1'')) ''artwork_a1'' = Parsed (monaLisa ''authentic'')"
proof -
  have "store (exampleLedger ''pending'') ''artwork_a1'' = Parsed (monaLisa ''pending'')"
    by (simp add: exampleLedger_def)
  then show ?thesis
    using example_not_owner
    by (simp add: example_provider markAsAuthentic_status markAsAuthentic_ledger example_mark)
qed

text \<open>
  Claim C1, as the code has it. The owner is compared with the connected account,
  ignoring the case of letters, only where the buttons are rendered: the two transition
  buttons are shown for a record of the cache only if its owner is a string equal to the
  connected account up to case. \<^verbatim>\<open>markAsAuthentic\<close> and \<^verbatim>\<open>markAsForgery\<close>
  themselves never read the connected account: called under any other account they
  return the same ledger and, but for the account itself, the same state.
\<close>

theorem transition_owner_gate:
  "(showsActions st artwork \<longrightarrow>
      (\<exists>address. owner artwork = Some (JStr address)
         \<and> toLowerCase (account st) = toLowerCase address))
   \<and> markAsAuthentic env (st\<lparr>account := other\<rparr>) led artworkId =
       (fst (markAsAuthentic env st led artworkId)\<lparr>account := other\<rparr>,
        snd (markAsAuthentic env st led artworkId))
   \<and> markAsForgery env (st\<lparr>account := other\<rparr>) led artworkId =
       (fst (markAsForgery env st led artworkId)\<lparr>account := other\<rparr>,
        snd (markAsForgery env st led artworkId))"
proof (intro conjI impI)
  assume "showsActions st artwork"
  then show "\<exists>address. owner artwork = Some (JStr address)
         \<and> toLowerCase (account st) = toLowerCase address"
    by (auto simp: showsActions_def isOwner_def split: option.splits json.splits)
qed (rule markAsAuthentic_account, rule markAsForgery_account)

text \<open>The owner's own session, in lower case, sees the buttons of the record.\<close>

theorem transition_owner_gate_witness:
  "showsActions (exampleState ''0xabcdef0123456789abcdef0123456789abcdef01'') cachedMonaLisa
   \<and> owner cachedMonaLisa = Some (JStr ''0xAbCdEf0123456789aBcDeF0123456789AbCdEf01'')
   \<and> toLowerCase (account (exampleState ''0xabcdef0123456789abcdef0123456789abcdef01'')) =
       toLowerCase ''0xAbCdEf0123456789aBcDeF0123456789AbCdEf01''"
  using transition_owner_gate [of "exampleState ''0xabcdef0123456789abcdef0123456789abcdef01''"
      cachedMonaLisa] example_shows
  by (simp add: cachedMonaLisa_def)

subsection \<open>C2: the status of a record over time\<close>

text \<open>
  As stated, the claim is that no operation changes a status that is already
  \<^verbatim>\<open>authentic\<close> or \<^verbatim>\<open>forgery\<close>. In the example record \<^verbatim>\<open>a1\<close> is
  \<^verbatim>\<open>authentic\<close> on the ledger, and \<^verbatim>\<open>markAsForgery("a1")\<close>, called by its
  owner, rewrites it to \<^verbatim>\<open>forgery\<close>.
\<close>

theorem markAsForgery_after_authentic_counterexample:
  "store (exampleLedger ''authentic'') ''artwork_a1'' = Parsed (monaLisa ''authentic'')
   \<and> store (snd (markAsForgery exampleEnv
        (exampleState ''0xabcdef0123456789abcdef0123456789abcdef01'')
        (exampleLedger ''authentic'') ''a1'')) ''artwork_a1'' = Parsed (monaLisa ''forgery'')"
proof -
  have "store (exampleLedger ''authentic'') ''artwork_a1'' = Parsed (monaLisa ''authentic'')"
    by (simp add: exampleLedger_def)
  then show ?thesis
    by (simp add: example_provider markAsForgery_ledger example_mark)
qed

text \<open>
  Claim C2, as the code has it. A record that \<^verbatim>\<open>uploadArtwork\<close> has created is on
  the ledger with status \<^verbatim>\<open>pending\<close>, and \<^verbatim>\<open>uploadArtwork\<close> changes no key
  but that of the new record and the index (\<^verbatim>\<open>loadArtworks\<close> writes nothing: it
  returns a state only). The two transition buttons are rendered only for a record whose
  status in the cache is \<^verbatim>\<open>pending\<close>. \<^verbatim>\<open>markAsAuthentic\<close> and
  \<^verbatim>\<open>markAsForgery\<close> change no key but that of the record named, and do not look at
  its current status: whenever one of them succeeds, the record is the one read with its
  status set to \<^verbatim>\<open>authentic\<close>, respectively \<^verbatim>\<open>forgery\<close>, whatever it was.
\<close>

theorem status_written_by_operations:
  "(provider st \<and> status' (transactionStatus (fst (uploadArtwork env st led))) = ''success'' \<longrightarrow>
      (\<exists>fs. store (snd (uploadArtwork env st led)) (''artwork_'' @ newArtworkId env) = Parsed (JObj fs)
         \<and> map_of fs ''status'' = Some (JStr ''pending'')))
   \<and> (key \<noteq> ''artwork_'' @ newArtworkId env \<and> key \<noteq> ''artwork_keys'' \<longrightarrow>
        store (snd (uploadArtwork env st led)) key = store led key)
   \<and> (showsActions st artwork \<longrightarrow> status artwork = JStr ''pending'')
   \<and> (key' \<noteq> ''artwork_'' @ artworkId \<longrightarrow>
        store (snd (markAsAuthentic env st led artworkId)) key' = store led key'
        \<and> store (snd (markAsForgery env st led artworkId)) key' = store led key')
   \<and> (provider st
        \<and> status' (transactionStatus (fst (markAsAuthentic env st led artworkId))) = ''success'' \<longrightarrow>
        (\<exists>artworkData. store led (''artwork_'' @ artworkId) = Parsed artworkData
           \<and> store (snd (markAsAuthentic env st led artworkId)) (''artwork_'' @ artworkId) =
               Parsed (withStatus artworkData ''authentic'')
           \<and> getProp (withStatus artworkData ''authentic'') ''status'' =
               Inr (Some (JStr ''authentic''))))
   \<and> (provider st
        \<and> status' (transactionStatus (fst (markAsForgery env st led artworkId))) = ''success'' \<longrightarrow>
        (\<exists>artworkData. store led (''artwork_'' @ artworkId) = Parsed artworkData
           \<and> store (snd (markAsForgery env st led artworkId)) (''artwork_'' @ artworkId) =
               Parsed (withStatus artworkData ''forgery'')
           \<and> getProp (withStatus artworkData ''forgery'') ''status'' =
               Inr (Some (JStr ''forgery''))))"
proof (intro conjI impI)
  assume a: "provider st \<and> status' (transactionStatus (fst (uploadArtwork env st led))) = ''success''"
  then have "\<exists>u. fst (uploadBody env st led) = Inr u"
    by (auto simp: uploadArtwork_success_iff)
  then obtain u where "fst (uploadBody env st led) = Inr u" ..
  from uploadBody_success [OF this] a
  show "\<exists>fs. store (snd (uploadArtwork env st led)) (''artwork_'' @ newArtworkId env) = Parsed (JObj fs)
         \<and> map_of fs ''status'' = Some (JStr ''pending'')"
    by (auto simp: uploadArtwork_ledger newArtwork_def)
next
  assume "key \<noteq> ''artwork_'' @ newArtworkId env \<and> key \<noteq> ''artwork_keys''"
  then show "store (snd (uploadArtwork env st led)) key = store led key"
    by (simp add: uploadArtwork_ledger uploadBody_store_other)
next
  assume "showsActions st artwork"
  then show "status artwork = JStr ''pending''"
    by (auto simp: showsActions_def split: option.splits json.splits)
next
  assume k: "key' \<noteq> ''artwork_'' @ artworkId"
  show "store (snd (markAsAuthentic env st led artworkId)) key' = store led key'"
    using k by (auto simp: markAsAuthentic_ledger split: sum.splits dest: markBody_store_other)
  show "store (snd (markAsForgery env st led artworkId)) key' = store led key'"
    using k by (auto simp: markAsForgery_ledger split: sum.splits dest: markBody_store_other)
next
  assume a: "provider st
        \<and> status' (transactionStatus (fst (markAsAuthentic env st led artworkId))) = ''success''"
  then obtain led' where "markBody env led artworkId ''authentic'' = Inr led'"
    by (cases "markBody env led artworkId ''authentic''") (auto simp: markAsAuthentic_status)
  with markBody_written [OF this] a
  show "\<exists>artworkData. store led (''artwork_'' @ artworkId) = Parsed artworkData
           \<and> store (snd (markAsAuthentic env st led artworkId)) (''artwork_'' @ artworkId) =
               Parsed (withStatus artworkData ''authentic'')
           \<and> getProp (withStatus artworkData ''authentic'') ''status'' =
               Inr (Some (JStr ''authentic''))"
    by (auto simp: markAsAuthentic_ledger withStatus_def map_of_setProp_same)
next
  assume a: "provider st
        \<and> status' (transactionStatus (fst (markAsForgery env st led artworkId))) = ''success''"
  then obtain led' where "markBody env led artworkId ''forgery'' = Inr led'"
    by (cases "markBody env led artworkId ''forgery''") (auto simp: markAsForgery_status)
  with markBody_written [OF this] a
  show "\<exists>artworkData. store led (''artwork_'' @ artworkId) = Parsed artworkData
           \<and> store (snd (markAsForgery env st led artworkId)) (''artwork_'' @ artworkId) =
               Parsed (withStatus artworkData ''forgery'')
           \<and> getProp (withStatus artworkData ''forgery'') ''status'' =
               Inr (Some (JStr ''forgery''))"
    by (auto simp: markAsForgery_ledger withStatus_def map_of_setProp_same)
qed

text \<open>
  On the example every premise holds at once: the owner uploads a second record, sees the
  buttons of \<^verbatim>\<open>a1\<close>, and either transition of \<^verbatim>\<open>a1\<close> succeeds; the upload leaves
  \<^verbatim>\<open>a1\<close> as it was and the transition leaves the index as it was.
\<close>

theorem status_written_by_operations_witness:
  "provider (exampleState ''0xabcdef0123456789abcdef0123456789abcdef01'')
   \<and> status' (transactionStatus (fst (uploadArtwork exampleEnv
        (exampleState ''0xabcdef0123456789abcdef0123456789abcdef01'') (exampleLedger ''pending'')))) = ''success''
   \<and> ''artwork_a1'' \<noteq> ''artwork_'' @ newArtworkId exampleEnv
   \<and> store (snd (uploadArtwork exampleEnv
        (exampleState ''0xabcdef0123456789abcdef0123456789abcdef01'') (exampleLedger ''pending''))) ''artwork_a1''
       = Parsed (monaLisa ''pending'')
   \<and> showsActions (exampleState ''0xabcdef0123456789abcdef0123456789abcdef01'') cachedMonaLisa
   \<and> status cachedMonaLisa = JStr ''pending''
   \<and> status' (transactionStatus (fst (markAsAuthentic exampleEnv
        (exampleState ''0xabcdef0123456789abcdef0123456789abcdef01'') (exampleLedger ''pending'') ''a1''))) = ''success''
   \<and> status' (transactionStatus (fst (markAsForgery exampleEnv
        (exampleState ''0xabcdef0123456789abcdef0123456789abcdef01'') (exampleLedger ''pending'') ''a1''))) = ''success''
   \<and> store (snd (markAsAuthentic exampleEnv
        (exampleState ''0xabcdef0123456789abcdef0123456789abcdef01'') (exampleLedger ''pending'') ''a1'')) ''artwork_keys''
       = Parsed (JArr [JStr ''a1''])"
  using status_written_by_operations [of "exampleState ''0xabcdef0123456789abcdef0123456789abcdef01''"
      exampleEnv "exampleLedger ''pending''" "''artwork_a1''" cachedMonaLisa "''artwork_keys''" "''a1''"]
    example_shows
  by (simp add: example_provider uploadArtwork_success_iff example_upload example_id
        markAsAuthentic_status markAsForgery_status example_mark)
     (simp add: exampleLedger_def cachedMonaLisa_def)

subsection \<open>C3: refreshing while the ledger is unavailable\<close>

text \<open>
  As stated, the claim is that a refresh during which \<^verbatim>\<open>isAvailable()\<close> reports false
  ends with an empty list of records. In the example a first refresh has filled the cache
  with record \<^verbatim>\<open>a1\<close>; a second refresh, with the probe now reporting false, leaves
  that record in the cache.
\<close>

theorem loadArtworks_unavailable_counterexample:
  "isAvailable (exampleEnv\<lparr>isAvailable := Inr False\<rparr>) = Inr False
   \<and> artworks (loadArtworks (exampleEnv\<lparr>isAvailable := Inr False\<rparr>) (exampleLedger ''pending'')
        (loadArtworks exampleEnv (exampleLedger ''pending'')
           (exampleState ''0x1111111111111111111111111111111111111111'')))
     = [cachedMonaLisa]"
proof -
  have "loadArtworksBody (exampleEnv\<lparr>isAvailable := Inr False\<rparr>) (exampleLedger ''pending'')
          = Inr None"
    by (simp add: loadArtworksBody_def exampleEnv_def)
  then show ?thesis
    by (simp add: loadArtworks_artworks example_load)
qed

text \<open>
  Claim C3, as the code has it. When the contract is there and \<^verbatim>\<open>isAvailable()\<close>
  reports false, \<^verbatim>\<open>loadArtworks\<close> returns early without an exception, leaves the
  list of records as it was before the call (empty only if it was empty), and lowers the
  refreshing and loading flags.
\<close>

theorem loadArtworks_unavailable:
  assumes "getContractReadOnly env = Inr True" and "isAvailable env = Inr False"
  shows "loadArtworksBody env led = Inr None
         \<and> artworks (loadArtworks env led st) = artworks st
         \<and> \<not> isRefreshing (loadArtworks env led st)
         \<and> \<not> loading (loadArtworks env led st)"
  using assms by (simp add: loadArtworksBody_def loadArtworks_def Let_def)

theorem loadArtworks_unavailable_witness:
  "getContractReadOnly (exampleEnv\<lparr>isAvailable := Inr False\<rparr>) = Inr True
   \<and> isAvailable (exampleEnv\<lparr>isAvailable := Inr False\<rparr>) = Inr False
   \<and> artworks (loadArtworks (exampleEnv\<lparr>isAvailable := Inr False\<rparr>) (exampleLedger ''pending'')
         (exampleState ''0x1111111111111111111111111111111111111111'')) = []
   \<and> \<not> loading (loadArtworks (exampleEnv\<lparr>isAvailable := Inr False\<rparr>) (exampleLedger ''pending'')
         (exampleState ''0x1111111111111111111111111111111111111111''))"
  using loadArtworks_unavailable [of "exampleEnv\<lparr>isAvailable := Inr False\<rparr>"
      "exampleLedger ''pending''" "exampleState ''0x1111111111111111111111111111111111111111''"]
  by (simp add: exampleEnv_def exampleState_def)

subsection \<open>C4: an upload whose write fails\<close>

text \<open>
  Claim C4 says that every upload whose remote write fails ends with an error notice that
  a person can read, the cache being left as it was. The handler of
  \<^verbatim>\<open>uploadArtwork\<close> calls \<^verbatim>\<open>e.message.includes\<close> before it reaches its own
  fallback \<^verbatim>\<open>e.message || "Unknown error"\<close>, so for a write rejected with a value
  that has no message the handler itself throws: here the ledger rejects the write of the
  record in that way, and the upload ends with the pending notice still shown and no
  error notice (\<open>uploading\<close> is lowered and the cache is untouched). The handler of
  \<^verbatim>\<open>markAsAuthentic\<close>, which has the same fallback without the call before it,
  shows \<^verbatim>\<open>Verification failed: Unknown error\<close> for the same rejection.
\<close>

theorem uploadArtwork_rejection_without_message:
  "setDataThrows (exampleEnv\<lparr>setDataThrows := (\<lambda>key. Some (Error None))\<rparr>)
      (''artwork_'' @ newArtworkId (exampleEnv\<lparr>setDataThrows := (\<lambda>key. Some (Error None))\<rparr>))
     = Some (Error None)
   \<and> transactionStatus (fst (uploadArtwork
        (exampleEnv\<lparr>setDataThrows := (\<lambda>key. Some (Error None))\<rparr>)
        (exampleState ''0x1111111111111111111111111111111111111111'')
        (exampleLedger ''pending'')))
       = \<lparr>visible = True, status' = ''pending'',
          message' = ''Encrypting hyperspectral data with FHE...''\<rparr>
   \<and> \<not> uploading (fst (uploadArtwork
        (exampleEnv\<lparr>setDataThrows := (\<lambda>key. Some (Error None))\<rparr>)
        (exampleState ''0x1111111111111111111111111111111111111111'')
        (exampleLedger ''pending'')))
   \<and> snd (uploadArtwork
        (exampleEnv\<lparr>setDataThrows := (\<lambda>key. Some (Error None))\<rparr>)
        (exampleState ''0x1111111111111111111111111111111111111111'')
        (exampleLedger ''pending'')) = exampleLedger ''pending''
   \<and> transactionStatus (fst (markAsAuthentic
        (exampleEnv\<lparr>setDataThrows := (\<lambda>key. Some (Error None))\<rparr>)
        (exampleState ''0x1111111111111111111111111111111111111111'')
        (exampleLedger ''pending'') ''a1''))
       = \<lparr>visible = True, status' = ''error'',
          message' = ''Verification failed: Unknown error''\<rparr>"
proof -
  let ?env = "exampleEnv\<lparr>setDataThrows := (\<lambda>key. Some (Error None))\<rparr>"
  let ?st = "exampleState ''0x1111111111111111111111111111111111111111''"
  have body: "uploadBody ?env ?st (exampleLedger ''pending'') = (Inl (Error None), exampleLedger ''pending'')"
    by (simp add: uploadBody_def setData_def exampleEnv_def)
  have thrown: "uploadErrorMessage (Error None) =
      Inl (Error (Some ''Cannot read properties of undefined (reading includes)''))"
    by (simp add: uploadErrorMessage_def)
  have up: "uploadArtwork ?env ?st (exampleLedger ''pending'') =
      (?st\<lparr>uploading := False,
            transactionStatus :=
              \<lparr>visible = True, status' = ''pending'',
               message' = ''Encrypting hyperspectral data with FHE...''\<rparr>\<rparr>,
       exampleLedger ''pending'')"
    using uploadArtwork_failure_thrown [OF example_provider body thrown] .
  have mark: "markBody ?env (exampleLedger ''pending'') ''a1'' ''authentic'' = Inl (Error None)"
    by (simp add: markBody_def getData_def setData_def exampleEnv_def exampleLedger_def)
  have "transactionStatus (fst (markAsAuthentic ?env ?st (exampleLedger ''pending'') ''a1''))
       = \<lparr>visible = True, status' = ''error'',
          message' = ''Verification failed: Unknown error''\<rparr>"
    by (simp add: markAsAuthentic_def Let_def example_provider mark)
  then show ?thesis
    by (simp add: up)
qed

subsection \<open>C5: the record is written before the index\<close>

text \<open>
  Claim C5. Whatever way \<^verbatim>\<open>uploadArtwork\<close> ends, the writes it has added to those
  the ledger had acknowledged are none, or the record alone, or the record and then the
  index: the index is never written unless the record was written, and acknowledged,
  first. When the upload succeeds, the two writes are the new record under its key and
  then the index that was read with the new id appended at its end, and afterwards the
  ledger holds that record under the key the new index entry refers to.
\<close>

theorem uploadArtwork_record_before_index:
  "(\<exists>r i. writes (snd (uploadArtwork env st led)) = writes led
        \<or> writes (snd (uploadArtwork env st led)) =
             writes led @ [(''artwork_'' @ newArtworkId env, r)]
        \<or> writes (snd (uploadArtwork env st led)) =
             writes led @ [(''artwork_'' @ newArtworkId env, r), (''artwork_keys'', i)])
   \<and> (provider st
        \<and> status' (transactionStatus (fst (uploadArtwork env st led))) = ''success'' \<longrightarrow>
       (\<exists>b ks. writes (snd (uploadArtwork env st led)) =
             writes led @
               [(''artwork_'' @ newArtworkId env, Parsed (newArtwork env st b)),
                (''artwork_keys'', Parsed (JArr (ks @ [JStr (newArtworkId env)])))]
           \<and> store (snd (uploadArtwork env st led)) (''artwork_'' @ newArtworkId env) =
               Parsed (newArtwork env st b)
           \<and> store (snd (uploadArtwork env st led)) ''artwork_keys'' =
               Parsed (JArr (ks @ [JStr (newArtworkId env)]))))"
proof (intro conjI impI)
  show "\<exists>r i. writes (snd (uploadArtwork env st led)) = writes led
        \<or> writes (snd (uploadArtwork env st led)) =
             writes led @ [(''artwork_'' @ newArtworkId env, r)]
        \<or> writes (snd (uploadArtwork env st led)) =
             writes led @ [(''artwork_'' @ newArtworkId env, r), (''artwork_keys'', i)]"
    using uploadBody_writes [of env st led] by (simp add: uploadArtwork_ledger)
next
  assume a: "provider st
        \<and> status' (transactionStatus (fst (uploadArtwork env st led))) = ''success''"
  then have "\<exists>u. fst (uploadBody env st led) = Inr u"
    by (auto simp: uploadArtwork_success_iff)
  then obtain u where "fst (uploadBody env st led) = Inr u" ..
  from uploadBody_success [OF this] obtain b ks where
    led': "snd (uploadBody env st led) =
           led\<lparr>store := (store led)
                   (''artwork_'' @ newArtworkId env := Parsed (newArtwork env st b),
                    ''artwork_keys'' := Parsed (JArr (ks @ [JStr (newArtworkId env)]))),
               writes := writes led @
                   [(''artwork_'' @ newArtworkId env, Parsed (newArtwork env st b)),
                    (''artwork_keys'', Parsed (JArr (ks @ [JStr (newArtworkId env)])))]\<rparr>"
    by blast
  show "\<exists>b ks. writes (snd (uploadArtwork env st led)) =
             writes led @
               [(''artwork_'' @ newArtworkId env, Parsed (newArtwork env st b)),
                (''artwork_keys'', Parsed (JArr (ks @ [JStr (newArtworkId env)])))]
           \<and> store (snd (uploadArtwork env st led)) (''artwork_'' @ newArtworkId env) =
               Parsed (newArtwork env st b)
           \<and> store (snd (uploadArtwork env st led)) ''artwork_keys'' =
               Parsed (JArr (ks @ [JStr (newArtworkId env)]))"
    using a led' by (intro exI [of _ b] exI [of _ ks]) (simp add: uploadArtwork_ledger)
qed

text \<open>The upload of \<^verbatim>\<open>Starry Night\<close> on the example succeeds with these two writes.\<close>

theorem uploadArtwork_record_before_index_witness:
  "provider (exampleState ''0x1111111111111111111111111111111111111111'')
   \<and> status' (transactionStatus (fst (uploadArtwork exampleEnv
        (exampleState ''0x1111111111111111111111111111111111111111'')
        (exampleLedger ''pending'')))) = ''success''
   \<and> writes (snd (uploadArtwork exampleEnv
        (exampleState ''0x1111111111111111111111111111111111111111'') (exampleLedger ''pending''))) =
       [(''artwork_1730534400123-k3x9q2a'',
           Parsed (starryNight ''0x1111111111111111111111111111111111111111'')),
        (''artwork_keys'', Parsed (JArr [JStr ''a1'', JStr ''1730534400123-k3x9q2a'']))]
   \<and> store (snd (uploadArtwork exampleEnv
        (exampleState ''0x1111111111111111111111111111111111111111'') (exampleLedger ''pending'')))
        ''artwork_1730534400123-k3x9q2a'' =
       Parsed (starryNight ''0x1111111111111111111111111111111111111111'')"
  using uploadArtwork_record_before_index [of exampleEnv
      "exampleState ''0x1111111111111111111111111111111111111111''" "exampleLedger ''pending''"]
  by (simp add: example_provider uploadArtwork_success_iff uploadArtwork_ledger example_upload)

subsection \<open>C6: a refresh passes over what it cannot load\<close>

text \<open>
  As stated, the claim is that for every remote state an indexed id without a record is
  passed over and never keeps the rest of the batch from being loaded. Let the index be
  \<^verbatim>\<open>[{"toString": 1}, "a1"]\<close>, with the record \<^verbatim>\<open>a1\<close> of the example and
  nothing else on the ledger. The first id has no record, and cannot even be printed into
  a key: the template of line 107 throws, the handler of line 124 prints the id again and
  throws in turn, and the exception leaves the loop. The refresh ends in the handler of
  line 130: \<^verbatim>\<open>setArtworks\<close> is not called and \<^verbatim>\<open>a1\<close> is not loaded.
\<close>

theorem loadArtworks_unprintable_id_counterexample:
  "store ((exampleLedger ''pending'')\<lparr>store := (store (exampleLedger ''pending''))
        (''artwork_keys'' := Parsed (JArr [JObj [(''toString'', JNum 1)], JStr ''a1'']))\<rparr>)
      ''artwork_a1'' = Parsed (monaLisa ''pending'')
   \<and> store ((exampleLedger ''pending'')\<lparr>store := (store (exampleLedger ''pending''))
        (''artwork_keys'' := Parsed (JArr [JObj [(''toString'', JNum 1)], JStr ''a1'']))\<rparr>)
      ''artwork_[object Object]'' = Empty
   \<and> loadArtworksBody exampleEnv
        ((exampleLedger ''pending'')\<lparr>store := (store (exampleLedger ''pending''))
           (''artwork_keys'' := Parsed (JArr [JObj [(''toString'', JNum 1)], JStr ''a1'']))\<rparr>)
       = Inl (Error (Some ''Cannot convert object to primitive value''))
   \<and> artworks (loadArtworks exampleEnv
        ((exampleLedger ''pending'')\<lparr>store := (store (exampleLedger ''pending''))
           (''artwork_keys'' := Parsed (JArr [JObj [(''toString'', JNum 1)], JStr ''a1'']))\<rparr>)
        (exampleState ''0x1111111111111111111111111111111111111111'')) = []"
proof -
  have "loadArtworksBody exampleEnv
        ((exampleLedger ''pending'')\<lparr>store := (store (exampleLedger ''pending''))
           (''artwork_keys'' := Parsed (JArr [JObj [(''toString'', JNum 1)], JStr ''a1'']))\<rparr>)
       = Inl (Error (Some ''Cannot convert object to primitive value''))"
    by (simp add: loadArtworksBody_def getData_def loadOne_def exampleEnv_def exampleLedger_def)
  then show ?thesis
    by (simp add: loadArtworks_artworks) (simp add: exampleLedger_def exampleState_def)
qed

text \<open>
  Claim C6, as the code has it, for an id that can be printed into a key (as every string
  can). Let the contract be there and available and the index be an array read
  without failure, and take one of its ids, with the key its blob is stored under. If the
  read of that key is rejected, or the blob is absent (of length 0), or present but
  unparsable, then the id is passed over: the loop over the whole index does exactly what
  the loop over the other ids does, those before and those after it, and the refresh ends
  as it would on that list. When the other ids can all be printed, the loop runs to its
  end and its list holds the record of every other id whose blob is read and parses to a
  record. In particular, when the index holds that id alone, the refresh raises nothing
  and sets the list of records to the empty list.
\<close>

theorem loadArtworks_skips_bad_items:
  assumes "getContractReadOnly env = Inr True" and "isAvailable env = Inr True"
    and "getDataThrows env ''artwork_keys'' = None"
    and "store led ''artwork_keys'' = Parsed (JArr (ks1 @ k # ks2))"
    and "toStringJ env k = Inr name"
    and "getDataThrows env (''artwork_'' @ name) \<noteq> None
         \<or> store led (''artwork_'' @ name) = Empty
         \<or> store led (''artwork_'' @ name) = Unparsable"
  shows "loadLoop env led (ks1 @ k # ks2) [] = loadLoop env led (ks1 @ ks2) []
       \<and> loadArtworksBody env led =
           (case loadLoop env led (ks1 @ ks2) [] of
              Inl e \<Rightarrow> Inl e
            | Inr list \<Rightarrow>
                (case sortList env (compareTimestamps env) list of
                   Inl e \<Rightarrow> Inl e
                 | Inr ordered \<Rightarrow> Inr (Some ordered)))
       \<and> ((\<forall>k' \<in> set (ks1 @ ks2). \<exists>name'. toStringJ env k' = Inr name') \<longrightarrow>
            (\<exists>list. loadLoop env led (ks1 @ k # ks2) [] = Inr list
               \<and> (\<forall>k' name' a r.
                     k' \<in> set (ks1 @ ks2) \<and> toStringJ env k' = Inr name'
                     \<and> getDataThrows env (''artwork_'' @ name') = None
                     \<and> store led (''artwork_'' @ name') = Parsed a
                     \<and> makeRecord k' a = Inr r
                     \<longrightarrow> r \<in> set list)))
       \<and> (ks1 = [] \<and> ks2 = [] \<longrightarrow>
            loadArtworksBody env led = Inr (Some [])
            \<and> artworks (loadArtworks env led st) = [])"
proof -
  have skip: "loadLoop env led (ks1 @ k # ks2) [] = loadLoop env led (ks1 @ ks2) []"
    using assms(5,6) by (rule loadLoop_skip)
  have body: "loadArtworksBody env led =
           (case loadLoop env led (ks1 @ ks2) [] of
              Inl e \<Rightarrow> Inl e
            | Inr list \<Rightarrow>
                (case sortList env (compareTimestamps env) list of
                   Inl e \<Rightarrow> Inl e
                 | Inr ordered \<Rightarrow> Inr (Some ordered)))"
    using assms(1-4) skip by (simp add: loadArtworksBody_ready)
  have rest: "\<exists>list. loadLoop env led (ks1 @ k # ks2) [] = Inr list
               \<and> (\<forall>k' name' a r.
                     k' \<in> set (ks1 @ ks2) \<and> toStringJ env k' = Inr name'
                     \<and> getDataThrows env (''artwork_'' @ name') = None
                     \<and> store led (''artwork_'' @ name') = Parsed a
                     \<and> makeRecord k' a = Inr r
                     \<longrightarrow> r \<in> set list)"
    if prints: "\<forall>k' \<in> set (ks1 @ ks2). \<exists>name'. toStringJ env k' = Inr name'"
  proof -
    from loadLoop_prints [OF prints] obtain list
      where list: "loadLoop env led (ks1 @ ks2) [] = Inr list" by blast
    have "r \<in> set list"
      if "k' \<in> set (ks1 @ ks2)" "toStringJ env k' = Inr name'"
        "getDataThrows env (''artwork_'' @ name') = None"
        "store led (''artwork_'' @ name') = Parsed a" "makeRecord k' a = Inr r"
      for k' name' a r
      using list that by (rule loadLoop_member)
    with list skip show ?thesis by auto
  qed
  have alone: "loadArtworksBody env led = Inr (Some [])
            \<and> artworks (loadArtworks env led st) = []"
    if "ks1 = [] \<and> ks2 = []"
    using that body by (simp add: sortList_def loadArtworks_artworks)
  from skip body rest alone show ?thesis by blast
qed

text \<open>
  Scenario A of the specification: the index is \<^verbatim>\<open>["a"]\<close> and there is no record
  \<^verbatim>\<open>a\<close>; the refresh raises nothing and empties a cache that held a record. And
  an index \<^verbatim>\<open>["a0", "a1"]\<close> where \<^verbatim>\<open>a0\<close> has no record and \<^verbatim>\<open>a1\<close> is
  the record of the example: the refresh loads \<^verbatim>\<open>a1\<close>.
\<close>

theorem loadArtworks_skips_bad_items_witness:
  "store ((exampleLedger ''pending'')\<lparr>store := (store (exampleLedger ''pending''))
        (''artwork_keys'' := Parsed (JArr [JStr ''a'']))\<rparr>) ''artwork_a'' = Empty
   \<and> loadArtworksBody exampleEnv
        ((exampleLedger ''pending'')\<lparr>store := (store (exampleLedger ''pending''))
           (''artwork_keys'' := Parsed (JArr [JStr ''a'']))\<rparr>) = Inr (Some [])
   \<and> artworks (loadArtworks exampleEnv
        ((exampleLedger ''pending'')\<lparr>store := (store (exampleLedger ''pending''))
           (''artwork_keys'' := Parsed (JArr [JStr ''a'']))\<rparr>)
        ((exampleState ''0x1111111111111111111111111111111111111111'')
           \<lparr>artworks := [cachedMonaLisa]\<rparr>)) = []
   \<and> store ((exampleLedger ''pending'')\<lparr>store := (store (exampleLedger ''pending''))
        (''artwork_keys'' := Parsed (JArr [JStr ''a0'', JStr ''a1'']))\<rparr>) ''artwork_a0'' = Empty
   \<and> loadLoop exampleEnv
        ((exampleLedger ''pending'')\<lparr>store := (store (exampleLedger ''pending''))
           (''artwork_keys'' := Parsed (JArr [JStr ''a0'', JStr ''a1'']))\<rparr>)
        [JStr ''a0'', JStr ''a1''] [] = Inr [cachedMonaLisa]
   \<and> loadArtworksBody exampleEnv
        ((exampleLedger ''pending'')\<lparr>store := (store (exampleLedger ''pending''))
           (''artwork_keys'' := Parsed (JArr [JStr ''a0'', JStr ''a1'']))\<rparr>)
       = Inr (Some [cachedMonaLisa])"
proof -
  define ledA where "ledA = (exampleLedger ''pending'')\<lparr>store := (store (exampleLedger ''pending''))
           (''artwork_keys'' := Parsed (JArr [JStr ''a'']))\<rparr>"
  define ledB where "ledB = (exampleLedger ''pending'')\<lparr>store := (store (exampleLedger ''pending''))
           (''artwork_keys'' := Parsed (JArr [JStr ''a0'', JStr ''a1'']))\<rparr>"
  define stA where "stA = (exampleState ''0x1111111111111111111111111111111111111111'')
           \<lparr>artworks := [cachedMonaLisa]\<rparr>"
  have env: "getContractReadOnly exampleEnv = Inr True" "isAvailable exampleEnv = Inr True"
      "getDataThrows exampleEnv ''artwork_keys'' = None"
    by (simp_all add: exampleEnv_def)
  have idxA: "store ledA ''artwork_keys'' = Parsed (JArr ([] @ JStr ''a'' # []))"
    and idxB: "store ledB ''artwork_keys'' = Parsed (JArr ([] @ JStr ''a0'' # [JStr ''a1'']))"
    by (simp_all add: ledA_def ledB_def)
  have nameA: "toStringJ exampleEnv (JStr ''a'') = Inr ''a''"
    and nameB: "toStringJ exampleEnv (JStr ''a0'') = Inr ''a0''"
    by simp_all
  have emptyA: "store ledA ''artwork_a'' = Empty" and emptyB: "store ledB ''artwork_a0'' = Empty"
    by (simp_all add: ledA_def ledB_def exampleLedger_def)
  have badA: "getDataThrows exampleEnv (''artwork_'' @ ''a'') \<noteq> None
         \<or> store ledA (''artwork_'' @ ''a'') = Empty
         \<or> store ledA (''artwork_'' @ ''a'') = Unparsable"
    and badB: "getDataThrows exampleEnv (''artwork_'' @ ''a0'') \<noteq> None
         \<or> store ledB (''artwork_'' @ ''a0'') = Empty
         \<or> store ledB (''artwork_'' @ ''a0'') = Unparsable"
    using emptyA emptyB by simp_all
  have one: "loadLoop exampleEnv ledB [JStr ''a1''] [] = Inr [cachedMonaLisa]"
    by (simp add: loadOne_def getData_def makeRecord_def exampleEnv_def exampleLedger_def
          ledB_def monaLisa_def cachedMonaLisa_def)
  have single: "sortList exampleEnv cmp [cachedMonaLisa] = Inr [cachedMonaLisa]" for cmp
    by (simp add: sortList_def exampleEnv_def)
  note A = loadArtworks_skips_bad_items [OF env idxA nameA badA, of stA]
  note B = loadArtworks_skips_bad_items [OF env idxB nameB badB]
  from A have a: "loadArtworksBody exampleEnv ledA = Inr (Some [])
      \<and> artworks (loadArtworks exampleEnv ledA stA) = []"
    by blast
  from B have "loadLoop exampleEnv ledB ([] @ JStr ''a0'' # [JStr ''a1'']) [] =
      loadLoop exampleEnv ledB ([] @ [JStr ''a1'']) []"
    by (rule conjunct1)
  with one have b1: "loadLoop exampleEnv ledB [JStr ''a0'', JStr ''a1''] [] = Inr [cachedMonaLisa]"
    by (simp del: loadLoop.simps)
  from B have "loadArtworksBody exampleEnv ledB =
           (case loadLoop exampleEnv ledB ([] @ [JStr ''a1'']) [] of
              Inl e \<Rightarrow> Inl e
            | Inr list \<Rightarrow>
                (case sortList exampleEnv (compareTimestamps exampleEnv) list of
                   Inl e \<Rightarrow> Inl e
                 | Inr ordered \<Rightarrow> Inr (Some ordered)))"
    by (rule conjunct1 [OF conjunct2])
  with one single have b2: "loadArtworksBody exampleEnv ledB = Inr (Some [cachedMonaLisa])"
    by (simp del: loadLoop.simps)
  from emptyA a emptyB b1 b2 show ?thesis
    unfolding ledA_def ledB_def stA_def by blast
qed

subsection \<open>C7: a transition changes the status and nothing else\<close>

text \<open>
  Claim C7. Let a provider be set, the signing contract be obtained, and the read and the
  write of the record's key succeed. If the blob under the key parses to an object, then
  after \<^verbatim>\<open>markAsAuthentic\<close> (\<^verbatim>\<open>markAsForgery\<close>) the same key holds that object
  with its \<^verbatim>\<open>status\<close> property set to \<^verbatim>\<open>authentic\<close> (\<^verbatim>\<open>forgery\<close>): the
  property \<^verbatim>\<open>status\<close> has the new value, every property of another name has the
  value it had, and the properties keep their order, \<^verbatim>\<open>status\<close> going last if the
  object had none.
\<close>

theorem transition_overlays_status:
  assumes "provider st"
    and "getContractWithSigner env = Inr True"
    and "getDataThrows env (''artwork_'' @ artworkId) = None"
    and "setDataThrows env (''artwork_'' @ artworkId) = None"
    and "store led (''artwork_'' @ artworkId) = Parsed (JObj fs)"
  shows "store (snd (markAsAuthentic env st led artworkId)) (''artwork_'' @ artworkId) =
           Parsed (JObj (setProp ''status'' (JStr ''authentic'') fs))
       \<and> store (snd (markAsForgery env st led artworkId)) (''artwork_'' @ artworkId) =
           Parsed (JObj (setProp ''status'' (JStr ''forgery'') fs))
       \<and> (\<forall>v. map_of (setProp ''status'' v fs) ''status'' = Some v
              \<and> (\<forall>p. p \<noteq> ''status'' \<longrightarrow> map_of (setProp ''status'' v fs) p = map_of fs p)
              \<and> map fst (setProp ''status'' v fs) =
                  (if ''status'' \<in> fst ` set fs then map fst fs else map fst fs @ [''status'']))"
  using assms(1) markBody_ok [OF assms(2-5)]
  by (simp add: markAsAuthentic_ledger markAsForgery_ledger withStatus_def
        map_of_setProp_same map_of_setProp_other names_setProp)

text \<open>On the example the record \<^verbatim>\<open>a1\<close> is rewritten with the same data, timestamp,
  owner and name.\<close>

theorem transition_overlays_status_witness:
  "store (exampleLedger ''pending'') ''artwork_a1'' = Parsed (monaLisa ''pending'')
   \<and> store (snd (markAsAuthentic exampleEnv
        (exampleState ''0xabcdef0123456789abcdef0123456789abcdef01'')
        (exampleLedger ''pending'') ''a1'')) ''artwork_a1'' = Parsed (monaLisa ''authentic'')
   \<and> store (snd (markAsForgery exampleEnv
        (exampleState ''0xabcdef0123456789abcdef0123456789abcdef01'')
        (exampleLedger ''pending'') ''a1'')) ''artwork_a1'' = Parsed (monaLisa ''forgery'')"
  using transition_overlays_status [of "exampleState ''0xabcdef0123456789abcdef0123456789abcdef01''"
      exampleEnv "''a1''" "exampleLedger ''pending''"
      "[(''data'', JStr ''FHE-e30=''), (''timestamp'', JNum 1730000000),
        (''owner'', JStr ''0xAbCdEf0123456789aBcDeF0123456789AbCdEf01''),
        (''artworkName'', JStr ''Mona Lisa''), (''status'', JStr ''pending'')]"]
  by (simp add: exampleEnv_def exampleLedger_def exampleState_def monaLisa_def)

subsection \<open>C8: refreshing twice\<close>

text \<open>
  Claim C8. For a fixed ledger and environment, running \<^verbatim>\<open>loadArtworks\<close> on the
  state it has produced gives that state again: the same records in the same order (and
  the same flags), whether the refresh replaced the list or, on an early return or an
  exception, left it.
\<close>

theorem loadArtworks_idempotent:
  "loadArtworks env led (loadArtworks env led st) = loadArtworks env led st
   \<and> artworks (loadArtworks env led (loadArtworks env led st)) =
       artworks (loadArtworks env led st)"
  by (simp add: loadArtworks_def Let_def split: sum.splits option.splits)

subsection \<open>C9: the confidence derived by the contract\<close>

text \<open>
  Claim C9. For every uint32 input, \<open>computeConfidence\<close> is the minimum of the input
  and 100: the input itself up to 100, and 100 above; read as unsigned numbers, the
  result is the minimum of the input's value and 100.
\<close>

theorem computeConfidence_min:
  "computeConfidence x = min x 100 \<and> unat (computeConfidence x) = min (unat x) 100"
proof -
  have "unat (100 :: uint32) = 100" by simp
  then show ?thesis
    unfolding computeConfidence_def Let_def min_def
    by (auto simp: word_less_nat_alt word_le_nat_alt)
qed

subsection \<open>C10: a record without a status\<close>

text \<open>
  As stated, the claim is that every blob that parses as JSON and has no status is
  loaded with status \<^verbatim>\<open>pending\<close>. The text \<^verbatim>\<open>null\<close> parses as JSON and has
  no status; with it stored under the id \<^verbatim>\<open>a1\<close> of the example, reading
  \<^verbatim>\<open>artworkData.data\<close> throws, the handler of the inner \<^verbatim>\<open>try\<close> passes the
  blob over, and the refresh ends with an empty list of records.
\<close>

theorem loadArtworks_null_blob_counterexample:
  "store ((exampleLedger ''pending'')\<lparr>store := (store (exampleLedger ''pending''))
        (''artwork_a1'' := Parsed JNull)\<rparr>) ''artwork_a1'' = Parsed JNull
   \<and> loadArtworksBody exampleEnv
        ((exampleLedger ''pending'')\<lparr>store := (store (exampleLedger ''pending''))
           (''artwork_a1'' := Parsed JNull)\<rparr>) = Inr (Some [])
   \<and> artworks (loadArtworks exampleEnv
        ((exampleLedger ''pending'')\<lparr>store := (store (exampleLedger ''pending''))
           (''artwork_a1'' := Parsed JNull)\<rparr>)
        (exampleState ''0x1111111111111111111111111111111111111111'')) = []"
proof -
  have "loadArtworksBody exampleEnv
        ((exampleLedger ''pending'')\<lparr>store := (store (exampleLedger ''pending''))
           (''artwork_a1'' := Parsed JNull)\<rparr>) = Inr (Some [])"
    by (simp add: loadArtworksBody_def getData_def loadOne_def makeRecord_def sortList_def
          exampleEnv_def exampleLedger_def)
  then show ?thesis
    by (simp add: loadArtworks_artworks)
qed

text \<open>
  Claim C10, as the code has it. Let the contract be there and available, the index be
  read without failure and be iterable, and every id of it be printable, and let the
  engine's sort return a rearrangement of the list it is given whenever it returns. If the
  blob of one of the ids is read without failure and parses to a value other than
  \<^verbatim>\<open>null\<close> (so to any object) whose \<^verbatim>\<open>status\<close> is absent or the empty
  string, then the blob is not passed over: the loop runs to its end and its list holds
  the record built from the blob, under that id and with status \<^verbatim>\<open>pending\<close>. The
  refresh then ends as the sort of that list does, and whenever the sort returns, the list
  of records is the sorted list and holds that record. (A blob that is \<^verbatim>\<open>null\<close> is
  passed over, and the sort throws when a timestamp of the batch cannot be made a
  number.)
\<close>

theorem loadArtworks_defaults_status:
  assumes "getContractReadOnly env = Inr True" and "isAvailable env = Inr True"
    and "getDataThrows env ''artwork_keys'' = None"
    and "iterate (parseKeys (store led ''artwork_keys'')) = Inr keys"
    and "\<forall>k \<in> set keys. \<exists>name'. toStringJ env k = Inr name'"
    and "key \<in> set keys"
    and "toStringJ env key = Inr name"
    and "getDataThrows env (''artwork_'' @ name) = None"
    and "store led (''artwork_'' @ name) = Parsed artworkData"
    and "artworkData \<noteq> JNull"
    and "getProp artworkData ''status'' = Inr None
         \<or> getProp artworkData ''status'' = Inr (Some (JStr ''''))"
    and "\<forall>cmp list list'. arraySort env cmp list = Inr list' \<longrightarrow> set list' = set list"
  shows "\<exists>r list. makeRecord key artworkData = Inr r \<and> id' r = key
           \<and> status r = JStr ''pending''
           \<and> loadLoop env led keys [] = Inr list \<and> r \<in> set list
           \<and> loadArtworksBody env led =
               (case sortList env (compareTimestamps env) list of
                  Inl e \<Rightarrow> Inl e
                | Inr ordered \<Rightarrow> Inr (Some ordered))
           \<and> (\<forall>ordered. sortList env (compareTimestamps env) list = Inr ordered \<longrightarrow>
                 artworks (loadArtworks env led st) = ordered \<and> r \<in> set ordered)"
proof -
  from makeRecord_pending [OF assms(10,11)] obtain r
    where r: "makeRecord key artworkData = Inr r" "id' r = key" "status r = JStr ''pending''"
    by blast
  from loadLoop_prints [OF assms(5)] obtain list
    where list: "loadLoop env led keys [] = Inr list" by blast
  have mem: "r \<in> set list"
    using list assms(6-9) r(1) by (rule loadLoop_member)
  have body: "loadArtworksBody env led =
               (case sortList env (compareTimestamps env) list of
                  Inl e \<Rightarrow> Inl e
                | Inr ordered \<Rightarrow> Inr (Some ordered))"
    using assms(1-4) list by (simp add: loadArtworksBody_ready)
  have after: "artworks (loadArtworks env led st) = ordered \<and> r \<in> set ordered"
    if "sortList env (compareTimestamps env) list = Inr ordered" for ordered
  proof -
    have "set ordered = set list"
      using that assms(12)
      by (auto simp: sortList_def split: if_splits)
    with mem body that show ?thesis
      by (simp add: loadArtworks_artworks)
  qed
  from r list mem body after show ?thesis by blast
qed

text \<open>The record \<^verbatim>\<open>a1\<close> of the example with nothing but a name: it is loaded, with
  status \<^verbatim>\<open>pending\<close> and the fields it lacks undefined.\<close>

theorem loadArtworks_defaults_status_witness:
  "getProp (JObj [(''artworkName'', JStr ''Mona Lisa'')]) ''status'' = Inr None
   \<and> artworks (loadArtworks exampleEnv
        ((exampleLedger ''pending'')\<lparr>store := (store (exampleLedger ''pending''))
           (''artwork_a1'' := Parsed (JObj [(''artworkName'', JStr ''Mona Lisa'')]))\<rparr>)
        (exampleState ''0x1111111111111111111111111111111111111111'')) =
       [\<lparr>id' = JStr ''a1'', encryptedData = None, timestamp = None, owner = None,
         artworkName = Some (JStr ''Mona Lisa''), status = JStr ''pending''\<rparr>]"
proof -
  define led where "led = (exampleLedger ''pending'')\<lparr>store := (store (exampleLedger ''pending''))
           (''artwork_a1'' := Parsed (JObj [(''artworkName'', JStr ''Mona Lisa'')]))\<rparr>"
  define st where "st = exampleState ''0x1111111111111111111111111111111111111111''"
  define rec where "rec = \<lparr>id' = JStr ''a1'', encryptedData = None, timestamp = None,
         owner = None, artworkName = Some (JStr ''Mona Lisa''), status = JStr ''pending''\<rparr>"
  have env: "getContractReadOnly exampleEnv = Inr True" "isAvailable exampleEnv = Inr True"
      "getDataThrows exampleEnv ''artwork_keys'' = None"
    by (simp_all add: exampleEnv_def)
  have idx: "iterate (parseKeys (store led ''artwork_keys'')) = Inr [JStr ''a1'']"
    by (simp add: led_def exampleLedger_def)
  have prints: "\<forall>k \<in> set [JStr ''a1'']. \<exists>name'. toStringJ exampleEnv k = Inr name'"
    and mem: "JStr ''a1'' \<in> set [JStr ''a1'']"
    and name: "toStringJ exampleEnv (JStr ''a1'') = Inr ''a1''"
    by simp_all
  have read: "getDataThrows exampleEnv (''artwork_'' @ ''a1'') = None"
    by (simp add: exampleEnv_def)
  have blob: "store led (''artwork_'' @ ''a1'') = Parsed (JObj [(''artworkName'', JStr ''Mona Lisa'')])"
    by (simp add: led_def)
  have notnull: "JObj [(''artworkName'', JStr ''Mona Lisa'')] \<noteq> JNull"
    by simp
  have nostatus: "getProp (JObj [(''artworkName'', JStr ''Mona Lisa'')]) ''status'' = Inr None"
    by simp
  have made: "makeRecord (JStr ''a1'') (JObj [(''artworkName'', JStr ''Mona Lisa'')]) = Inr rec"
    by (simp add: makeRecord_def rec_def)
  have loop: "loadLoop exampleEnv led [JStr ''a1''] [] = Inr [rec]"
    using read blob by (simp add: loadOne_def getData_def made)
  have single: "sortList exampleEnv (compareTimestamps exampleEnv) [rec] = Inr [rec]"
    by (simp add: sortList_def exampleEnv_def)
  have rearranges: "\<forall>cmp list list'. arraySort exampleEnv cmp list = Inr list' \<longrightarrow>
      set list' = set list"
    using example_sort by blast
  from loadArtworks_defaults_status [where st = st, OF env idx prints mem name read blob
      notnull disjI1 [OF nostatus] rearranges]
  obtain r list where
    "loadLoop exampleEnv led [JStr ''a1''] [] = Inr list"
    "\<forall>ordered. sortList exampleEnv (compareTimestamps exampleEnv) list = Inr ordered \<longrightarrow>
       artworks (loadArtworks exampleEnv led st) = ordered \<and> r \<in> set ordered"
    by blast
  with loop single have "artworks (loadArtworks exampleEnv led st) = [rec]"
    by (simp del: loadLoop.simps)
  with nostatus show ?thesis
    unfolding led_def st_def rec_def by blast
qed

end
